theory Spec2Isabelle
  imports Main "HOL-Library.Word"
begin

unbundle bit_operations_syntax

section \<open>Data model of \<^verbatim>\<open>src/cipher.cpp\<close>\<close>

text \<open>
  Buffers are byte strings. A cipher type is the value of the \<^verbatim>\<open>cipher_t\<close> enum.
  Sizes are \<^verbatim>\<open>size_t\<close>; no claim depends on their wrap-around, so they are \<open>nat\<close>.
\<close>

type_synonym byte = "8 word"
type_synonym buffer_t = "byte list"
type_synonym cipher_t = nat

datatype cipher_bm =
  bm_none | bm_ecb | bm_cbc | bm_cfb | bm_ofb | bm_ctr | bm_gcm | bm_ccm | bm_xts | bm_stream

datatype padding_t =
  pad_none | pad_pkcs7 | pad_one_and_zeros | pad_zeros_and_len | pad_zeros

datatype mode = encrypt_mode | decrypt_mode

text \<open>The fields of \<^verbatim>\<open>mbedtls_cipher_info_t\<close> that the file reads.\<close>

record cipher_info_t =
  info_mode :: cipher_bm
  info_key_bitlen :: nat
  info_iv_size :: nat
  info_block_size :: nat

text \<open>
  What can be thrown: the exceptions of \<^verbatim>\<open>exceptions::\<close> and the library's
  \<^verbatim>\<open>exception{code, message}\<close> of \<^verbatim>\<open>exception.hpp\<close>.
\<close>

datatype exn =
  unknown_cipher
  | usage_error string
  | aead_error
  | gcm_error
  | exception int string

text \<open>
  A call returns, throws, or has no defined behaviour in C++ (a division by zero, a
  store past the end of a buffer, a read through a null or past-the-end pointer).
\<close>

datatype 'a outcome = Returns 'a | Throws exn | Undefined

text \<open>
  What a primitive call of the native library leaves behind: its return code, the
  context after the call, the bytes it stored from the output pointer on, and the value
  it stored through the length pointer (\<open>None\<close> when it stored none).
\<close>

datatype 'c called = Called (ret: int) (ctx_after: 'c) (written: buffer_t) (olen: "nat option")

text \<open>
  The native library (mbedtls) is not part of this repository: it is a parameter. Each
  field is one of the C functions \<^verbatim>\<open>cipher.cpp\<close> calls, on a context of type \<open>'c\<close>;
  \<open>mode_aead\<close> and \<open>mode_gcm\<close> are the build flags \<^verbatim>\<open>MBEDTLS_CIPHER_MODE_AEAD\<close>
  and \<^verbatim>\<open>MBEDTLS_GCM_C\<close>;
  \<open>cipher_info_from_type\<close> includes the enum conversion \<^verbatim>\<open>to_native\<close>;
  \<open>ctx_cipher_info\<close> reads the field \<^verbatim>\<open>ctx_.cipher_info\<close> (\<open>None\<close> is a null pointer).
\<close>

record 'c mbedtls =
  mode_aead :: bool
  cipher_info_from_type :: "cipher_t \<Rightarrow> cipher_info_t option"
  cipher_init :: 'c
  cipher_setup :: "'c \<Rightarrow> cipher_info_t \<Rightarrow> int \<times> 'c"
  cipher_get_block_size :: "'c \<Rightarrow> nat"
  ctx_cipher_info :: "'c \<Rightarrow> cipher_info_t option"
  cipher_set_iv :: "'c \<Rightarrow> buffer_t \<Rightarrow> int \<times> 'c"
  cipher_setkey :: "'c \<Rightarrow> buffer_t \<Rightarrow> nat \<Rightarrow> mode \<Rightarrow> int \<times> 'c"
  cipher_set_padding_mode :: "'c \<Rightarrow> padding_t \<Rightarrow> int \<times> 'c"
  cipher_reset :: "'c \<Rightarrow> int \<times> 'c"
  cipher_update :: "'c \<Rightarrow> buffer_t \<Rightarrow> 'c called"
  cipher_finish :: "'c \<Rightarrow> 'c called"
  cipher_crypt :: "'c \<Rightarrow> buffer_t \<Rightarrow> nat \<Rightarrow> buffer_t \<Rightarrow> 'c called"
  cipher_auth_encrypt ::
    "'c \<Rightarrow> buffer_t \<Rightarrow> buffer_t \<Rightarrow> buffer_t \<Rightarrow> nat \<Rightarrow> 'c called \<times> buffer_t"
  cipher_auth_decrypt ::
    "'c \<Rightarrow> buffer_t \<Rightarrow> buffer_t \<Rightarrow> buffer_t \<Rightarrow> buffer_t \<Rightarrow> 'c called"
  mode_gcm :: bool
  cipher_update_ad :: "'c \<Rightarrow> buffer_t \<Rightarrow> int \<times> 'c"
  cipher_write_tag :: "'c \<Rightarrow> nat \<Rightarrow> int \<times> 'c \<times> buffer_t"
  cipher_check_tag :: "'c \<Rightarrow> buffer_t \<Rightarrow> int \<times> 'c"

text \<open>The two error codes of \<^verbatim>\<open>mbedtls/cipher.h\<close> the file names.\<close>

definition MBEDTLS_ERR_CIPHER_FULL_BLOCK_EXPECTED :: int where
  "MBEDTLS_ERR_CIPHER_FULL_BLOCK_EXPECTED = - 0x6280"

definition MBEDTLS_ERR_CIPHER_AUTH_FAILED :: int where
  "MBEDTLS_ERR_CIPHER_AUTH_FAILED = - 0x6300"

section \<open>Buffers and pointers\<close>

text \<open>
  \<open>store_at buf off bs\<close>: the primitive stores \<open>bs\<close> from \<^verbatim>\<open>buf + off\<close> on. A store
  that does not fit the buffer is a write past its end: \<open>None\<close>.
\<close>

definition store_at :: "buffer_t \<Rightarrow> nat \<Rightarrow> buffer_t \<Rightarrow> buffer_t option" where
  "store_at buf off bs =
     (if off + length bs \<le> length buf
      then Some (take off buf @ bs @ drop (off + length bs) buf)
      else None)"

text \<open>\<^verbatim>\<open>std::string::resize(n)\<close>: cut to \<open>n\<close> bytes, or fill up with zero bytes.\<close>

definition resize :: "buffer_t \<Rightarrow> nat \<Rightarrow> buffer_t" where
  "resize buf n = take n buf @ replicate (n - length buf) 0"

text \<open>A length variable after a call that was handed its address.\<close>

fun stored :: "nat option \<Rightarrow> nat \<Rightarrow> nat" where
  "stored None old = old"
| "stored (Some n) old = n"

section \<open>\<^verbatim>\<open>exception.hpp\<close>: \<^verbatim>\<open>mbedcrypto_c_call\<close>\<close>

definition c_call_impl :: "string \<Rightarrow> int \<Rightarrow> unit outcome" where
  "c_call_impl error_tag r = (if r \<noteq> 0 then Throws (exception r error_tag) else Returns ())"

section \<open>\<^verbatim>\<open>struct cipher_impl\<close>\<close>

record 'c cipher_impl =
  ctx :: 'c
  iv_data :: buffer_t

text \<open>Sequencing of two steps on a state: the second runs when the first returned.\<close>

fun and_then ::
  "'a outcome \<times> 's \<Rightarrow> ('a \<Rightarrow> 's \<Rightarrow> 'b outcome \<times> 's) \<Rightarrow> 'b outcome \<times> 's" where
  "and_then (Returns x, s) f = f x s"
| "and_then (Throws e, s) f = (Throws e, s)"
| "and_then (Undefined, s) f = (Undefined, s)"

definition native_info :: "'c mbedtls \<Rightarrow> cipher_t \<Rightarrow> cipher_info_t outcome" where
  "native_info M ctype =
     (case cipher_info_from_type M ctype of
        None \<Rightarrow> Throws unknown_cipher
      | Some cinfot \<Rightarrow> Returns cinfot)"

definition new_cipher_impl :: "'c mbedtls \<Rightarrow> 'c cipher_impl" where
  "new_cipher_impl M = \<lparr>ctx = cipher_init M, iv_data = []\<rparr>"

definition impl_setup :: "'c mbedtls \<Rightarrow> cipher_t \<Rightarrow> 'c cipher_impl \<Rightarrow> unit outcome \<times> 'c cipher_impl" where
  "impl_setup M ctype s =
     (case native_info M ctype of
        Returns cinfot \<Rightarrow>
          (case cipher_setup M (ctx s) cinfot of
             (r, c) \<Rightarrow> (c_call_impl ''mbedtls_cipher_setup'' r, s\<lparr>ctx := c\<rparr>))
      | Throws e \<Rightarrow> (Throws e, s)
      | Undefined \<Rightarrow> (Undefined, s))"

definition impl_block_size :: "'c mbedtls \<Rightarrow> 'c cipher_impl \<Rightarrow> nat" where
  "impl_block_size M s = cipher_get_block_size M (ctx s)"

text \<open>\<^verbatim>\<open>ctx_.cipher_info->iv_size\<close> and \<^verbatim>\<open>->mode\<close>: \<open>None\<close> when the pointer is null.\<close>

definition impl_iv_size :: "'c mbedtls \<Rightarrow> 'c cipher_impl \<Rightarrow> nat option" where
  "impl_iv_size M s = map_option info_iv_size (ctx_cipher_info M (ctx s))"

definition impl_key_bitlen :: "'c mbedtls \<Rightarrow> 'c cipher_impl \<Rightarrow> nat option" where
  "impl_key_bitlen M s = map_option info_key_bitlen (ctx_cipher_info M (ctx s))"

definition impl_block_mode :: "'c mbedtls \<Rightarrow> 'c cipher_impl \<Rightarrow> cipher_bm option" where
  "impl_block_mode M s = map_option info_mode (ctx_cipher_info M (ctx s))"

text \<open>
  \<^verbatim>\<open>iv(buffer_view_t)\<close> copies the viewed bytes into the remembered IV and then hands
  the view's pointer and length to the primitive; the copy is made before the call, so
  it stays when the call fails. A view is a pointer and a length into memory it does
  not own. Called from outside, the view is of the caller's memory, which the
  assignment does not touch: the primitive reads the bytes the caller passed.
\<close>

definition impl_iv :: "'c mbedtls \<Rightarrow> buffer_t \<Rightarrow> 'c cipher_impl \<Rightarrow> unit outcome \<times> 'c cipher_impl" where
  "impl_iv M iv_view s =
     (case cipher_set_iv M (ctx s) iv_view of
        (r, c) \<Rightarrow> (c_call_impl ''mbedtls_cipher_set_iv'' r, \<lparr>ctx = c, iv_data = iv_view\<rparr>))"

text \<open>
  \<^verbatim>\<open>reset_last_iv\<close> calls \<^verbatim>\<open>iv(iv_data_)\<close>: the view is of the remembered IV's own
  storage. \<^verbatim>\<open>iv\<close> first assigns \<^verbatim>\<open>iv_data_ = iv_data.to<buffer_t>()\<close>, a move from a
  fresh string, and only then passes \<^verbatim>\<open>iv_data.data()\<close> to the primitive. A
  \<^verbatim>\<open>std::string\<close> of at most \<open>inline_capacity\<close> bytes (15 in libstdc++) lives inside
  the object: the assignment copies the same bytes over it and the view still reads
  the IV. A longer one lives on the heap: the assignment takes over the fresh string's
  storage and releases the old one, and the primitive is handed a pointer into released
  memory. Reading through it has no defined behaviour.
\<close>

definition inline_capacity :: nat where
  "inline_capacity = 15"

definition reset_last_iv :: "'c mbedtls \<Rightarrow> 'c cipher_impl \<Rightarrow> unit outcome \<times> 'c cipher_impl" where
  "reset_last_iv M s =
     (if length (iv_data s) \<le> inline_capacity then impl_iv M (iv_data s) s
      else (Undefined, s))"

definition impl_key :: "'c mbedtls \<Rightarrow> buffer_t \<Rightarrow> mode \<Rightarrow> 'c cipher_impl \<Rightarrow> unit outcome \<times> 'c cipher_impl" where
  "impl_key M key_data m s =
     (case cipher_setkey M (ctx s) key_data (length key_data * 8) m of
        (r, c) \<Rightarrow> (c_call_impl ''mbedtls_cipher_setkey'' r, s\<lparr>ctx := c\<rparr>))"

definition impl_padding :: "'c mbedtls \<Rightarrow> padding_t \<Rightarrow> 'c cipher_impl \<Rightarrow> unit outcome \<times> 'c cipher_impl" where
  "impl_padding M p s =
     (if p = pad_none then (Returns (), s)
      else (case cipher_set_padding_mode M (ctx s) p of
              (r, c) \<Rightarrow> (c_call_impl ''mbedtls_cipher_set_padding_mode'' r, s\<lparr>ctx := c\<rparr>)))"

text \<open>
  The loop of \<^verbatim>\<open>update_chunked\<close>. \<open>poutput\<close> is the memory from the output pointer on;
  the result is the return code, the length variable \<^verbatim>\<open>osize\<close> (assigned only at the
  end of a loop that ran through), the memory and the context.
\<close>

function update_chunked_loop ::
  "'c mbedtls \<Rightarrow> buffer_t \<Rightarrow> nat \<Rightarrow> nat \<Rightarrow> nat \<Rightarrow> nat \<Rightarrow> nat \<Rightarrow> nat \<Rightarrow> buffer_t \<Rightarrow> 'c
     \<Rightarrow> (int \<times> nat \<times> buffer_t) outcome \<times> 'c" where
  "update_chunked_loop M achunk bsize chunks i i_index o_index osize poutput c =
     (if i < chunks then
        (case cipher_update M c (take bsize (drop i_index achunk)) of
           Called r c' w ol \<Rightarrow>
             (case store_at poutput o_index w of
                None \<Rightarrow> (Undefined, c')
              | Some poutput' \<Rightarrow>
                  if r < 0 then (Returns (r, osize, poutput'), c')
                  else update_chunked_loop M achunk bsize chunks (i + 1)
                         (i_index + bsize) (o_index + stored ol 0) osize poutput' c'))
      else (Returns (0, o_index, poutput), c))"
  by pat_completeness auto
termination
  by (relation "measure (\<lambda>(M, achunk, bsize, chunks, i, rest). chunks - i)") auto

declare update_chunked_loop.simps [simp del]

definition update_chunked ::
  "'c mbedtls \<Rightarrow> buffer_t \<Rightarrow> buffer_t \<Rightarrow> nat \<Rightarrow> 'c cipher_impl
     \<Rightarrow> (int \<times> nat \<times> buffer_t) outcome \<times> 'c cipher_impl" where
  "update_chunked M achunk poutput osize s =
     (let bsize = impl_block_size M s in
      if bsize = 0 then (Undefined, s)
      else if length achunk mod bsize \<noteq> 0
      then (Returns (MBEDTLS_ERR_CIPHER_FULL_BLOCK_EXPECTED, osize, poutput), s)
      else (case update_chunked_loop M achunk bsize (length achunk div bsize) 0 0 0 osize
                   poutput (ctx s) of
              (res, c) \<Rightarrow> (res, s\<lparr>ctx := c\<rparr>)))"

section \<open>\<^verbatim>\<open>class crypt_engine\<close>: the one-shot engine\<close>

definition cipher_block_size :: "'c mbedtls \<Rightarrow> cipher_t \<Rightarrow> nat outcome" where
  "cipher_block_size M ctype =
     (case native_info M ctype of
        Returns cinfot \<Rightarrow> Returns (info_block_size cinfot)
      | Throws e \<Rightarrow> Throws e
      | Undefined \<Rightarrow> Undefined)"

definition cipher_iv_size :: "'c mbedtls \<Rightarrow> cipher_t \<Rightarrow> nat outcome" where
  "cipher_iv_size M ctype =
     (case native_info M ctype of
        Returns cinfot \<Rightarrow> Returns (info_iv_size cinfot)
      | Throws e \<Rightarrow> Throws e
      | Undefined \<Rightarrow> Undefined)"

definition cipher_block_mode :: "'c mbedtls \<Rightarrow> cipher_t \<Rightarrow> cipher_bm outcome" where
  "cipher_block_mode M ctype =
     (case native_info M ctype of
        Returns cinfot \<Rightarrow> Returns (info_mode cinfot)
      | Throws e \<Rightarrow> Throws e
      | Undefined \<Rightarrow> Undefined)"

definition cipher_key_bitlen :: "'c mbedtls \<Rightarrow> cipher_t \<Rightarrow> nat outcome" where
  "cipher_key_bitlen M ctype =
     (case native_info M ctype of
        Returns cinfot \<Rightarrow> Returns (info_key_bitlen cinfot)
      | Throws e \<Rightarrow> Throws e
      | Undefined \<Rightarrow> Undefined)"

record 'c crypt_engine =
  e_block_mode :: cipher_bm
  e_block_size :: nat
  e_input_size :: nat
  e_chunks :: nat
  e_cim :: "'c cipher_impl"
  e_input :: buffer_t

definition ecb_size_message :: string where
  "ecb_size_message =
     ''ecb cipher block: a valid input size must be dividable by block size''"

text \<open>
  The constructor: the member initialisers (two registry lookups, which throw on an
  unknown type), the four configuration calls, then the number of chunks. In
  \<^verbatim>\<open>input_size_ == 0 || input_size_ % block_size_\<close> the remainder is taken only for a
  non-empty input; a block size of zero there is a division by zero.
\<close>

definition crypt_engine_new ::
  "'c mbedtls \<Rightarrow> cipher_t \<Rightarrow> padding_t \<Rightarrow> buffer_t \<Rightarrow> buffer_t \<Rightarrow> mode \<Rightarrow> buffer_t
     \<Rightarrow> 'c crypt_engine outcome" where
  "crypt_engine_new M ctype pad iv key m input =
     (case cipher_block_mode M ctype of
        Throws e \<Rightarrow> Throws e
      | Undefined \<Rightarrow> Undefined
      | Returns bm \<Rightarrow>
     (case cipher_block_size M ctype of
        Throws e \<Rightarrow> Throws e
      | Undefined \<Rightarrow> Undefined
      | Returns bs \<Rightarrow>
     (case and_then (and_then (and_then (impl_setup M ctype (new_cipher_impl M))
               (\<lambda>_. impl_padding M pad)) (\<lambda>_. impl_iv M iv)) (\<lambda>_. impl_key M key m) of
        (Throws e, cim) \<Rightarrow> Throws e
      | (Undefined, cim) \<Rightarrow> Undefined
      | (Returns _, cim) \<Rightarrow>
          (let eng = \<lparr>e_block_mode = bm, e_block_size = bs, e_input_size = length input,
                      e_chunks = 0, e_cim = cim, e_input = input\<rparr> in
           if bm = bm_ecb then
             (if length input = 0 then Throws (usage_error ecb_size_message)
              else if bs = 0 then Undefined
              else if length input mod bs \<noteq> 0 then Throws (usage_error ecb_size_message)
              else Returns (eng\<lparr>e_chunks := length input div bs\<rparr>))
           else Returns (eng\<lparr>e_chunks := 1\<rparr>)))))"

definition output_size :: "'c crypt_engine \<Rightarrow> nat" where
  "output_size eng = 32 + e_input_size eng + e_block_size eng"

text \<open>
  One call of \<^verbatim>\<open>mbedtls_cipher_crypt\<close> through \<^verbatim>\<open>mbedcrypto_c_call\<close>: the IV pointer
  is that of the remembered IV and the IV length is the algorithm's, so a remembered
  IV shorter than that is read past its end. The bytes are stored at \<open>pDes\<close> in the
  output buffer.
\<close>

definition crypt_call ::
  "'c mbedtls \<Rightarrow> buffer_t \<Rightarrow> buffer_t \<Rightarrow> buffer_t \<Rightarrow> nat \<Rightarrow> 'c
     \<Rightarrow> (nat option \<times> buffer_t \<times> 'c) outcome" where
  "crypt_call M iv src output pDes c =
     (case ctx_cipher_info M c of
        None \<Rightarrow> Undefined
      | Some cinfot \<Rightarrow>
          if length iv < info_iv_size cinfot then Undefined
          else
            (case cipher_crypt M c (take (info_iv_size cinfot) iv) (info_iv_size cinfot) src of
               Called r c' w ol \<Rightarrow>
                 (case store_at output pDes w of
                    None \<Rightarrow> Undefined
                  | Some output' \<Rightarrow>
                      (case c_call_impl ''mbedtls_cipher_crypt'' r of
                         Throws e \<Rightarrow> Throws e
                       | Undefined \<Rightarrow> Undefined
                       | Returns _ \<Rightarrow> Returns (ol, output', c')))))"

function compute_loop ::
  "'c mbedtls \<Rightarrow> buffer_t \<Rightarrow> buffer_t \<Rightarrow> nat \<Rightarrow> nat \<Rightarrow> nat \<Rightarrow> nat \<Rightarrow> nat \<Rightarrow> nat \<Rightarrow> buffer_t \<Rightarrow> 'c
     \<Rightarrow> (nat \<times> buffer_t) outcome" where
  "compute_loop M iv input block_size chunks i osize pSrc pDes output c =
     (if i < chunks then
        (case crypt_call M iv (take block_size (drop pSrc input)) output pDes c of
           Throws e \<Rightarrow> Throws e
         | Undefined \<Rightarrow> Undefined
         | Returns (done_size, output', c') \<Rightarrow>
             compute_loop M iv input block_size chunks (i + 1) (osize + stored done_size 0)
               (pSrc + block_size) (pDes + block_size) output' c')
      else Returns (osize, output))"
  by pat_completeness auto
termination
  by (relation "measure (\<lambda>(M, iv, input, block_size, chunks, i, rest). chunks - i)") auto

declare compute_loop.simps [simp del]

definition compute :: "'c mbedtls \<Rightarrow> 'c crypt_engine \<Rightarrow> buffer_t outcome" where
  "compute M eng =
     (let osize = output_size eng;
          output = replicate osize (0::byte);
          cim = e_cim eng in
      if e_chunks eng = 1 then
        (case crypt_call M (iv_data cim) (take (e_input_size eng) (e_input eng)) output 0 (ctx cim) of
           Throws e \<Rightarrow> Throws e
         | Undefined \<Rightarrow> Undefined
         | Returns (ol, output', c') \<Rightarrow> Returns (resize output' (stored ol osize)))
      else
        (case compute_loop M (iv_data cim) (e_input eng) (e_block_size eng) (e_chunks eng)
                0 0 0 0 output (ctx cim) of
           Throws e \<Rightarrow> Throws e
         | Undefined \<Rightarrow> Undefined
         | Returns (osize', output') \<Rightarrow> Returns (resize output' osize')))"

definition run ::
  "'c mbedtls \<Rightarrow> cipher_t \<Rightarrow> padding_t \<Rightarrow> buffer_t \<Rightarrow> buffer_t \<Rightarrow> mode \<Rightarrow> buffer_t
     \<Rightarrow> buffer_t outcome" where
  "run M ctype pad iv key m input =
     (case crypt_engine_new M ctype pad iv key m input of
        Throws e \<Rightarrow> Throws e
      | Undefined \<Rightarrow> Undefined
      | Returns cengine \<Rightarrow> compute M cengine)"

section \<open>\<^verbatim>\<open>class cipher\<close>: the one-shot interface\<close>

definition encrypt ::
  "'c mbedtls \<Rightarrow> cipher_t \<Rightarrow> padding_t \<Rightarrow> buffer_t \<Rightarrow> buffer_t \<Rightarrow> buffer_t \<Rightarrow> buffer_t outcome" where
  "encrypt M ctype pad iv key input = run M ctype pad iv key encrypt_mode input"

definition decrypt ::
  "'c mbedtls \<Rightarrow> cipher_t \<Rightarrow> padding_t \<Rightarrow> buffer_t \<Rightarrow> buffer_t \<Rightarrow> buffer_t \<Rightarrow> buffer_t outcome" where
  "decrypt M ctype pad iv key input = run M ctype pad iv key decrypt_mode input"

text \<open>
  The AEAD one-shots work on a local \<^verbatim>\<open>cipher::impl\<close>; without the build flag they
  throw \<^verbatim>\<open>aead_error\<close>. The tag buffer has 16 bytes and is never resized.
\<close>

definition encrypt_aead ::
  "'c mbedtls \<Rightarrow> cipher_t \<Rightarrow> buffer_t \<Rightarrow> buffer_t \<Rightarrow> buffer_t \<Rightarrow> buffer_t
     \<Rightarrow> (buffer_t \<times> buffer_t) outcome" where
  "encrypt_aead M ctype iv key ad input =
     (if \<not> mode_aead M then Throws aead_error
      else
        (case and_then (impl_setup M ctype (new_cipher_impl M))
                (\<lambda>_. impl_key M key encrypt_mode) of
           (Throws e, cip) \<Rightarrow> Throws e
         | (Undefined, cip) \<Rightarrow> Undefined
         | (Returns _, cip) \<Rightarrow>
             (let olen0 = length input + impl_block_size M cip;
                  output = replicate olen0 (0::byte);
                  tag = replicate 16 (0::byte) in
              case cipher_auth_encrypt M (ctx cip) iv ad input 16 of
                (Called r c' w ol, tag_written) \<Rightarrow>
                  (case store_at output 0 w of
                     None \<Rightarrow> Undefined
                   | Some output' \<Rightarrow>
                       (case store_at tag 0 tag_written of
                          None \<Rightarrow> Undefined
                        | Some tag' \<Rightarrow>
                            (case c_call_impl ''mbedtls_cipher_auth_encrypt'' r of
                               Throws e \<Rightarrow> Throws e
                             | Undefined \<Rightarrow> Undefined
                             | Returns _ \<Rightarrow> Returns (tag', resize output' (stored ol olen0))))))))"

definition decrypt_aead ::
  "'c mbedtls \<Rightarrow> cipher_t \<Rightarrow> buffer_t \<Rightarrow> buffer_t \<Rightarrow> buffer_t \<Rightarrow> buffer_t \<Rightarrow> buffer_t
     \<Rightarrow> (bool \<times> buffer_t) outcome" where
  "decrypt_aead M ctype iv key ad tag input =
     (if \<not> mode_aead M then Throws aead_error
      else
        (case and_then (impl_setup M ctype (new_cipher_impl M))
                (\<lambda>_. impl_key M key decrypt_mode) of
           (Throws e, cip) \<Rightarrow> Throws e
         | (Undefined, cip) \<Rightarrow> Undefined
         | (Returns _, cip) \<Rightarrow>
             (let olen0 = length input + impl_block_size M cip;
                  output = replicate olen0 (0::byte) in
              case cipher_auth_decrypt M (ctx cip) iv ad input tag of
                Called r c' w ol \<Rightarrow>
                  (case store_at output 0 w of
                     None \<Rightarrow> Undefined
                   | Some output' \<Rightarrow>
                       (let result = resize output' (stored ol olen0) in
                        if r = MBEDTLS_ERR_CIPHER_AUTH_FAILED then Returns (False, result)
                        else if r = 0 then Returns (True, result)
                        else Throws (exception r ''decrypt_aead''))))))"

section \<open>\<^verbatim>\<open>class cipher\<close>: the streaming interface\<close>

text \<open>
  A \<^verbatim>\<open>cipher\<close> object is its \<^verbatim>\<open>cipher_impl\<close>. Every method takes the object and
  returns it with its outcome, also when it throws: the object outlives the exception.
\<close>

definition cipher_new :: "'c mbedtls \<Rightarrow> cipher_t \<Rightarrow> unit outcome \<times> 'c cipher_impl" where
  "cipher_new M ctype = impl_setup M ctype (new_cipher_impl M)"

definition cipher_iv :: "'c mbedtls \<Rightarrow> buffer_t \<Rightarrow> 'c cipher_impl \<Rightarrow> unit outcome \<times> 'c cipher_impl" where
  "cipher_iv M iv_view s = impl_iv M iv_view s"

definition cipher_key ::
  "'c mbedtls \<Rightarrow> buffer_t \<Rightarrow> mode \<Rightarrow> 'c cipher_impl \<Rightarrow> unit outcome \<times> 'c cipher_impl" where
  "cipher_key M key_data m s = impl_key M key_data m s"

definition cipher_padding ::
  "'c mbedtls \<Rightarrow> padding_t \<Rightarrow> 'c cipher_impl \<Rightarrow> unit outcome \<times> 'c cipher_impl" where
  "cipher_padding M p s = impl_padding M p s"

definition start :: "'c mbedtls \<Rightarrow> 'c cipher_impl \<Rightarrow> unit outcome \<times> 'c cipher_impl" where
  "start M s =
     and_then (reset_last_iv M s)
       (\<lambda>_ s'. case cipher_reset M (ctx s') of
                  (r, c) \<Rightarrow> (c_call_impl ''mbedtls_cipher_reset'' r, s'\<lparr>ctx := c\<rparr>))"

text \<open>\<^verbatim>\<open>buffer_t update(buffer_view_t input)\<close>\<close>

definition update ::
  "'c mbedtls \<Rightarrow> buffer_t \<Rightarrow> 'c cipher_impl \<Rightarrow> buffer_t outcome \<times> 'c cipher_impl" where
  "update M input s =
     (let osize = length input + impl_block_size M s + 32;
          output = replicate osize (0::byte) in
      case impl_block_mode M s of
        None \<Rightarrow> (Undefined, s)
      | Some bm \<Rightarrow>
          if bm = bm_ecb then
            (case update_chunked M input output osize s of
               (Returns (r, osize', output'), s') \<Rightarrow>
                 if r \<noteq> 0 then (Throws (exception r ''update''), s')
                 else (Returns (resize output' osize'), s')
             | (Throws e, s') \<Rightarrow> (Throws e, s')
             | (Undefined, s') \<Rightarrow> (Undefined, s'))
          else
            (case cipher_update M (ctx s) input of
               Called r c' w ol \<Rightarrow>
                 (case store_at output 0 w of
                    None \<Rightarrow> (Undefined, s\<lparr>ctx := c'\<rparr>)
                  | Some output' \<Rightarrow>
                      (case c_call_impl ''mbedtls_cipher_update'' r of
                         Throws e \<Rightarrow> (Throws e, s\<lparr>ctx := c'\<rparr>)
                       | Undefined \<Rightarrow> (Undefined, s\<lparr>ctx := c'\<rparr>)
                       | Returns _ \<Rightarrow>
                           (Returns (resize output' (stored ol osize)), s\<lparr>ctx := c'\<rparr>)))))"

text \<open>
  \<^verbatim>\<open>size_t update(input, in_index, count, buffer_t& output, out_index)\<close>: the caller's
  buffer is part of what the call leaves behind, also when it throws. A slice outside
  the input, or an output index outside the buffer, is a pointer out of range.
\<close>

definition update_at ::
  "'c mbedtls \<Rightarrow> buffer_t \<Rightarrow> nat \<Rightarrow> nat \<Rightarrow> buffer_t \<Rightarrow> nat \<Rightarrow> 'c cipher_impl
     \<Rightarrow> nat outcome \<times> buffer_t \<times> 'c cipher_impl" where
  "update_at M input in_index count output out_index s =
     (case impl_block_mode M s of
        None \<Rightarrow> (Undefined, output, s)
      | Some bm \<Rightarrow>
          if length input < in_index + count \<or> length output < out_index
          then (Undefined, output, s)
          else if bm = bm_ecb then
            (case update_chunked M (take count (drop in_index input)) (drop out_index output) 0 s of
               (Returns (r, usize, region), s') \<Rightarrow>
                 if r \<noteq> 0 then (Throws (exception r ''update''), take out_index output @ region, s')
                 else (Returns usize, take out_index output @ region, s')
             | (Throws e, s') \<Rightarrow> (Throws e, output, s')
             | (Undefined, s') \<Rightarrow> (Undefined, output, s'))
          else
            (case cipher_update M (ctx s) (take count (drop in_index input)) of
               Called r c' w ol \<Rightarrow>
                 (case store_at output out_index w of
                    None \<Rightarrow> (Undefined, output, s\<lparr>ctx := c'\<rparr>)
                  | Some output' \<Rightarrow>
                      (case c_call_impl ''mbedtls_cipher_update'' r of
                         Throws e \<Rightarrow> (Throws e, output', s\<lparr>ctx := c'\<rparr>)
                       | Undefined \<Rightarrow> (Undefined, output', s\<lparr>ctx := c'\<rparr>)
                       | Returns _ \<Rightarrow> (Returns (stored ol 0), output', s\<lparr>ctx := c'\<rparr>)))))"

text \<open>
  \<^verbatim>\<open>int update(input, unsigned char* output, size_t& output_size) noexcept\<close>:
  \<open>poutput\<close> is the caller's memory from the pointer on. The result is the return code,
  the caller's \<^verbatim>\<open>output_size\<close> and the caller's memory.
\<close>

definition update_noexcept ::
  "'c mbedtls \<Rightarrow> buffer_t \<Rightarrow> buffer_t \<Rightarrow> nat \<Rightarrow> 'c cipher_impl
     \<Rightarrow> (int \<times> nat \<times> buffer_t) outcome \<times> 'c cipher_impl" where
  "update_noexcept M input poutput output_size' s =
     (case impl_block_mode M s of
        None \<Rightarrow> (Undefined, s)
      | Some bm \<Rightarrow>
          if bm = bm_ecb then update_chunked M input poutput output_size' s
          else
            (case cipher_update M (ctx s) input of
               Called r c' w ol \<Rightarrow>
                 (case store_at poutput 0 w of
                    None \<Rightarrow> (Undefined, s\<lparr>ctx := c'\<rparr>)
                  | Some poutput' \<Rightarrow>
                      (Returns (r, stored ol output_size', poutput'), s\<lparr>ctx := c'\<rparr>))))"

text \<open>\<^verbatim>\<open>buffer_t finish()\<close>\<close>

definition finish :: "'c mbedtls \<Rightarrow> 'c cipher_impl \<Rightarrow> buffer_t outcome \<times> 'c cipher_impl" where
  "finish M s =
     (let osize = impl_block_size M s + 32;
          output = replicate osize (0::byte) in
      case cipher_finish M (ctx s) of
        Called r c' w ol \<Rightarrow>
          (case store_at output 0 w of
             None \<Rightarrow> (Undefined, s\<lparr>ctx := c'\<rparr>)
           | Some output' \<Rightarrow>
               (case c_call_impl ''mbedtls_cipher_finish'' r of
                  Throws e \<Rightarrow> (Throws e, s\<lparr>ctx := c'\<rparr>)
                | Undefined \<Rightarrow> (Undefined, s\<lparr>ctx := c'\<rparr>)
                | Returns _ \<Rightarrow> (Returns (resize output' (stored ol osize)), s\<lparr>ctx := c'\<rparr>))))"

text \<open>\<^verbatim>\<open>size_t finish(buffer_t& output, size_t out_index)\<close>\<close>

definition finish_at ::
  "'c mbedtls \<Rightarrow> buffer_t \<Rightarrow> nat \<Rightarrow> 'c cipher_impl \<Rightarrow> nat outcome \<times> buffer_t \<times> 'c cipher_impl" where
  "finish_at M output out_index s =
     (if length output < out_index then (Undefined, output, s)
      else
        (case cipher_finish M (ctx s) of
           Called r c' w ol \<Rightarrow>
             (case store_at output out_index w of
                None \<Rightarrow> (Undefined, output, s\<lparr>ctx := c'\<rparr>)
              | Some output' \<Rightarrow>
                  (case c_call_impl ''mbedtls_cipher_finish'' r of
                     Throws e \<Rightarrow> (Throws e, output', s\<lparr>ctx := c'\<rparr>)
                   | Undefined \<Rightarrow> (Undefined, output', s\<lparr>ctx := c'\<rparr>)
                   | Returns _ \<Rightarrow> (Returns (stored ol 0), output', s\<lparr>ctx := c'\<rparr>)))))"

text \<open>\<^verbatim>\<open>int finish(unsigned char* output, size_t& output_size) noexcept\<close>\<close>

definition finish_noexcept ::
  "'c mbedtls \<Rightarrow> buffer_t \<Rightarrow> nat \<Rightarrow> 'c cipher_impl
     \<Rightarrow> (int \<times> nat \<times> buffer_t) outcome \<times> 'c cipher_impl" where
  "finish_noexcept M poutput output_size' s =
     (case cipher_finish M (ctx s) of
        Called r c' w ol \<Rightarrow>
          (case store_at poutput 0 w of
             None \<Rightarrow> (Undefined, s\<lparr>ctx := c'\<rparr>)
           | Some poutput' \<Rightarrow>
               (Returns (r, stored ol output_size', poutput'), s\<lparr>ctx := c'\<rparr>)))"

text \<open>\<^verbatim>\<open>buffer_t crypt(buffer_view_t input)\<close>: start, one update, finish.\<close>

definition crypt :: "'c mbedtls \<Rightarrow> buffer_t \<Rightarrow> 'c cipher_impl \<Rightarrow> buffer_t outcome \<times> 'c cipher_impl" where
  "crypt M input s =
     and_then (start M s)
       (\<lambda>_ s1.
          let osize = 32 + length input + impl_block_size M s1;
              output = replicate osize (0::byte) in
          case cipher_update M (ctx s1) input of
            Called r c2 w ol \<Rightarrow>
              (case store_at output 0 w of
                 None \<Rightarrow> (Undefined, s1\<lparr>ctx := c2\<rparr>)
               | Some output2 \<Rightarrow>
                   (case c_call_impl ''mbedtls_cipher_update'' r of
                      Throws e \<Rightarrow> (Throws e, s1\<lparr>ctx := c2\<rparr>)
                    | Undefined \<Rightarrow> (Undefined, s1\<lparr>ctx := c2\<rparr>)
                    | Returns _ \<Rightarrow>
                        (let out_index = stored ol 0 in
                         case cipher_finish M c2 of
                           Called r3 c3 w3 ol3 \<Rightarrow>
                             (case store_at output2 out_index w3 of
                                None \<Rightarrow> (Undefined, s1\<lparr>ctx := c3\<rparr>)
                              | Some output3 \<Rightarrow>
                                  (case c_call_impl ''mbedtls_cipher_finish'' r3 of
                                     Throws e \<Rightarrow> (Throws e, s1\<lparr>ctx := c3\<rparr>)
                                   | Undefined \<Rightarrow> (Undefined, s1\<lparr>ctx := c3\<rparr>)
                                   | Returns _ \<Rightarrow>
                                       (Returns (resize output3 (out_index + stored ol3 0)),
                                        s1\<lparr>ctx := c3\<rparr>)))))))"

text \<open>
  The streaming GCM calls; without \<^verbatim>\<open>MBEDTLS_GCM_C\<close> they throw \<^verbatim>\<open>gcm_error\<close>.
\<close>

definition gcm_additional_data ::
  "'c mbedtls \<Rightarrow> buffer_t \<Rightarrow> 'c cipher_impl \<Rightarrow> unit outcome \<times> 'c cipher_impl" where
  "gcm_additional_data M ad s =
     (if \<not> mode_gcm M then (Throws gcm_error, s)
      else (case cipher_update_ad M (ctx s) ad of
              (r, c) \<Rightarrow> (c_call_impl ''mbedtls_cipher_update_ad'' r, s\<lparr>ctx := c\<rparr>)))"

definition gcm_encryption_tag ::
  "'c mbedtls \<Rightarrow> nat \<Rightarrow> 'c cipher_impl \<Rightarrow> buffer_t outcome \<times> 'c cipher_impl" where
  "gcm_encryption_tag M len s =
     (if \<not> mode_gcm M then (Throws gcm_error, s)
      else
        (let tag = replicate len (0::byte) in
         case cipher_write_tag M (ctx s) len of
           (r, c, tag_written) \<Rightarrow>
             (case store_at tag 0 tag_written of
                None \<Rightarrow> (Undefined, s\<lparr>ctx := c\<rparr>)
              | Some tag' \<Rightarrow>
                  (case c_call_impl ''mbedtls_cipher_write_tag'' r of
                     Throws e \<Rightarrow> (Throws e, s\<lparr>ctx := c\<rparr>)
                   | Undefined \<Rightarrow> (Undefined, s\<lparr>ctx := c\<rparr>)
                   | Returns _ \<Rightarrow> (Returns tag', s\<lparr>ctx := c\<rparr>)))))"

definition gcm_check_decryption_tag ::
  "'c mbedtls \<Rightarrow> buffer_t \<Rightarrow> 'c cipher_impl \<Rightarrow> bool outcome \<times> 'c cipher_impl" where
  "gcm_check_decryption_tag M tag s =
     (if \<not> mode_gcm M then (Throws gcm_error, s)
      else
        (case cipher_check_tag M (ctx s) tag of
           (r, c) \<Rightarrow>
             (if r = 0 then Returns True
              else if r = MBEDTLS_ERR_CIPHER_AUTH_FAILED then Returns False
              else Throws (exception r ''gcm_check_decryption_tag''),
              s\<lparr>ctx := c\<rparr>)))"

section \<open>The chunk driver as the specification words it\<close>

text \<open>
  The blocks of a buffer, and the driver as a recursion over them: feed the primitive
  one block, store what it wrote at the running output index, stop with the
  primitive's code when that is negative, otherwise add the length it reported and go
  on. It is compared with the loop of \<^verbatim>\<open>update_chunked\<close> below.
\<close>

definition blocks_of :: "nat \<Rightarrow> buffer_t \<Rightarrow> buffer_t list" where
  "blocks_of bsize achunk =
     map (\<lambda>i. take bsize (drop (i * bsize) achunk)) [0..<length achunk div bsize]"

fun chunk_driver ::
  "'c mbedtls \<Rightarrow> buffer_t list \<Rightarrow> nat \<Rightarrow> nat \<Rightarrow> buffer_t \<Rightarrow> 'c
     \<Rightarrow> (int \<times> nat \<times> buffer_t) outcome \<times> 'c" where
  "chunk_driver M [] o_index osize poutput c = (Returns (0, o_index, poutput), c)"
| "chunk_driver M (b # rest) o_index osize poutput c =
     (case cipher_update M c b of
        Called r c' w ol \<Rightarrow>
          (case store_at poutput o_index w of
             None \<Rightarrow> (Undefined, c')
           | Some poutput' \<Rightarrow>
               if r < 0 then (Returns (r, osize, poutput'), c')
               else chunk_driver M rest (o_index + stored ol 0) osize poutput' c'))"

section \<open>The one-shot loop and a streamed message\<close>


fun crypt_driver ::
  "'c mbedtls \<Rightarrow> buffer_t \<Rightarrow> buffer_t list \<Rightarrow> nat \<Rightarrow> nat \<Rightarrow> nat \<Rightarrow> buffer_t \<Rightarrow> 'c
     \<Rightarrow> (nat \<times> buffer_t) outcome" where
  "crypt_driver M iv [] block_size osize pDes obuf c = Returns (osize, obuf)"
| "crypt_driver M iv (b # rest) block_size osize pDes obuf c =
     (case crypt_call M iv b obuf pDes c of
        Throws e \<Rightarrow> Throws e
      | Undefined \<Rightarrow> Undefined
      | Returns (done_size, obuf', c') \<Rightarrow>
          crypt_driver M iv rest block_size (osize + stored done_size 0)
            (pDes + block_size) obuf' c')"

fun updates ::
  "'c mbedtls \<Rightarrow> buffer_t list \<Rightarrow> 'c cipher_impl \<Rightarrow> buffer_t list outcome \<times> 'c cipher_impl" where
  "updates M [] s = (Returns [], s)"
| "updates M (x # xs) s =
     and_then (update M x s)
       (\<lambda>out s1. and_then (updates M xs s1) (\<lambda>outs s2. (Returns (out # outs), s2)))"

definition message ::
  "'c mbedtls \<Rightarrow> buffer_t list \<Rightarrow> 'c cipher_impl
     \<Rightarrow> (buffer_t list \<times> buffer_t) outcome \<times> 'c cipher_impl" where
  "message M chunks s =
     and_then (start M s)
       (\<lambda>_ s1. and_then (updates M chunks s1)
          (\<lambda>outs s2. and_then (finish M s2) (\<lambda>fin s3. (Returns (outs, fin), s3))))"

section \<open>Contracts of the primitive\<close>


definition restartable :: "'c mbedtls \<Rightarrow> ('c \<Rightarrow> 'k) \<Rightarrow> bool" where
  "restartable M cfg \<longleftrightarrow>
     (\<forall>c v. cfg (snd (cipher_set_iv M c v)) = cfg c) \<and>
     (\<forall>c. cfg (snd (cipher_reset M c)) = cfg c) \<and>
     (\<forall>c x. cfg (ctx_after (cipher_update M c x)) = cfg c) \<and>
     (\<forall>c. cfg (ctx_after (cipher_finish M c)) = cfg c) \<and>
     (\<forall>c d v. cfg c = cfg d \<longrightarrow>
        fst (cipher_set_iv M c v) = fst (cipher_set_iv M d v) \<and>
        (fst (cipher_set_iv M c v) = 0 \<longrightarrow>
           cipher_reset M (snd (cipher_set_iv M c v)) = cipher_reset M (snd (cipher_set_iv M d v))))"

section \<open>What the primitive reports\<close>




fun returned :: "'a outcome \<Rightarrow> 'a option" where
  "returned (Returns x) = Some x"
| "returned (Throws e) = None"
| "returned Undefined = None"

section \<open>How a failure is reported\<close>

text \<open>
  \<^verbatim>\<open>mbedcrypto_c_call\<close> and the explicit \<^verbatim>\<open>throw exception{ret, ...}\<close> of the update
  overloads, with the value the call returns otherwise: a non-zero code is an exception
  that carries the code and a tag, and nothing else. The codes a run of one-shot calls
  returns for a list of blocks, up to and with the first non-zero one, and the blocks
  the one-shot engine hands to the primitive: the whole input, or its blocks in ECB mode.
\<close>

definition thrown_or :: "int \<Rightarrow> string \<Rightarrow> 'a \<Rightarrow> 'a outcome" where
  "thrown_or r error_tag v = (if r \<noteq> 0 then Throws (exception r error_tag) else Returns v)"

fun crypt_codes :: "'c mbedtls \<Rightarrow> buffer_t \<Rightarrow> buffer_t list \<Rightarrow> 'c \<Rightarrow> int list" where
  "crypt_codes M iv [] c = []"
| "crypt_codes M iv (b # rest) c =
     (case ctx_cipher_info M c of
        None \<Rightarrow> []
      | Some cinfot \<Rightarrow>
          (case cipher_crypt M c (take (info_iv_size cinfot) iv) (info_iv_size cinfot) b of
             Called r c' w ol \<Rightarrow> r # (if r \<noteq> 0 then [] else crypt_codes M iv rest c')))"

definition engine_blocks :: "'c crypt_engine \<Rightarrow> buffer_t list" where
  "engine_blocks eng =
     (if e_chunks eng = 1 then [e_input eng] else blocks_of (e_block_size eng) (e_input eng))"

section \<open>A test double of the native library\<close>

text \<open>
  A small stand-in for mbedtls on which the definitions above can be run. Its context
  holds the bound algorithm, the key, the direction, the IV and the position in the
  stream since the last reset. Type 0 is an ECB cipher with two-byte blocks, type 1 a
  counter-mode cipher with a two-byte IV, type 2 an AEAD cipher, type 3 a CBC cipher
  without padding (its finish fails on an incomplete last block); every other type is
  unknown. A byte is encrypted by XOR with a key-stream byte, so decryption is the same
  operation.
\<close>

record toy_ctx =
  t_info :: "cipher_info_t option"
  t_key :: buffer_t
  t_dir :: mode
  t_iv :: buffer_t
  t_pos :: nat

definition toy_registry :: "cipher_t \<Rightarrow> cipher_info_t option" where
  "toy_registry ctype =
     (if ctype = 0 then
        Some \<lparr>info_mode = bm_ecb, info_key_bitlen = 16, info_iv_size = 0, info_block_size = 2\<rparr>
      else if ctype = 1 then
        Some \<lparr>info_mode = bm_ctr, info_key_bitlen = 16, info_iv_size = 2, info_block_size = 2\<rparr>
      else if ctype = 2 then
        Some \<lparr>info_mode = bm_gcm, info_key_bitlen = 16, info_iv_size = 2, info_block_size = 2\<rparr>
      else if ctype = 3 then
        Some \<lparr>info_mode = bm_cbc, info_key_bitlen = 16, info_iv_size = 2, info_block_size = 2\<rparr>
      else None)"

definition toy_init :: toy_ctx where
  "toy_init = \<lparr>t_info = None, t_key = [], t_dir = encrypt_mode, t_iv = [], t_pos = 0\<rparr>"

definition toy_is_ecb :: "toy_ctx \<Rightarrow> bool" where
  "toy_is_ecb c = (case t_info c of None \<Rightarrow> False | Some i \<Rightarrow> info_mode i = bm_ecb)"

definition toy_block_size :: "toy_ctx \<Rightarrow> nat" where
  "toy_block_size c = (case t_info c of None \<Rightarrow> 0 | Some i \<Rightarrow> info_block_size i)"

text \<open>The key-stream byte at a position: none of the position or IV in ECB mode.\<close>

definition toy_pad_byte :: "toy_ctx \<Rightarrow> nat \<Rightarrow> byte" where
  "toy_pad_byte c p =
     (if toy_is_ecb c then sum_list (t_key c)
      else sum_list (t_key c) + sum_list (t_iv c) + of_nat p)"

fun toy_xor :: "toy_ctx \<Rightarrow> nat \<Rightarrow> buffer_t \<Rightarrow> buffer_t" where
  "toy_xor c p [] = []"
| "toy_xor c p (b # bs) = (b XOR toy_pad_byte c p) # toy_xor c (Suc p) bs"

definition toy_setup :: "toy_ctx \<Rightarrow> cipher_info_t \<Rightarrow> int \<times> toy_ctx" where
  "toy_setup c cinfot = (0, c\<lparr>t_info := Some cinfot\<rparr>)"

definition toy_set_iv :: "toy_ctx \<Rightarrow> buffer_t \<Rightarrow> int \<times> toy_ctx" where
  "toy_set_iv c iv =
     (case t_info c of
        None \<Rightarrow> (- 0x6100, c)
      | Some i \<Rightarrow>
          if length iv < info_iv_size i then (- 0x6100, c)
          else (0, c\<lparr>t_iv := take (info_iv_size i) iv\<rparr>))"

definition toy_setkey :: "toy_ctx \<Rightarrow> buffer_t \<Rightarrow> nat \<Rightarrow> mode \<Rightarrow> int \<times> toy_ctx" where
  "toy_setkey c key bitlen m =
     (case t_info c of
        None \<Rightarrow> (- 0x6100, c)
      | Some i \<Rightarrow>
          if bitlen \<noteq> info_key_bitlen i then (- 0x6100, c)
          else (0, c\<lparr>t_key := key, t_dir := m\<rparr>))"

definition toy_set_padding_mode :: "toy_ctx \<Rightarrow> padding_t \<Rightarrow> int \<times> toy_ctx" where
  "toy_set_padding_mode c p =
     (case t_info c of
        None \<Rightarrow> (- 0x6100, c)
      | Some i \<Rightarrow> if info_mode i = bm_cbc then (0, c) else (- 0x6100, c))"

definition toy_reset :: "toy_ctx \<Rightarrow> int \<times> toy_ctx" where
  "toy_reset c = (0, c\<lparr>t_pos := 0\<rparr>)"

definition toy_update :: "toy_ctx \<Rightarrow> buffer_t \<Rightarrow> toy_ctx called" where
  "toy_update c input =
     (case t_info c of
        None \<Rightarrow> Called (- 0x6100) c [] None
      | Some i \<Rightarrow>
          if info_mode i = bm_ecb \<and> length input \<noteq> info_block_size i
          then Called (- 0x6280) c [] (Some 0)
          else Called 0 (c\<lparr>t_pos := t_pos c + length input\<rparr>)
                 (toy_xor c (t_pos c) input) (Some (length input)))"

definition toy_finish :: "toy_ctx \<Rightarrow> toy_ctx called" where
  "toy_finish c =
     (case t_info c of
        None \<Rightarrow> Called (- 0x6100) c [] None
      | Some i \<Rightarrow>
          if info_mode i = bm_cbc \<and> t_pos c mod info_block_size i \<noteq> 0
          then Called (- 0x6280) c [] (Some 0)
          else Called 0 c [] (Some 0))"

text \<open>As the native \<^verbatim>\<open>mbedtls_cipher_crypt\<close>: set the IV, reset, one update, finish.\<close>

definition toy_crypt :: "toy_ctx \<Rightarrow> buffer_t \<Rightarrow> nat \<Rightarrow> buffer_t \<Rightarrow> toy_ctx called" where
  "toy_crypt c iv iv_len input =
     (case toy_set_iv c (take iv_len iv) of
        (r, c1) \<Rightarrow>
          if r \<noteq> 0 then Called r c1 [] None
          else toy_update (snd (toy_reset c1)) input)"

definition toy_tag :: "toy_ctx \<Rightarrow> buffer_t \<Rightarrow> buffer_t \<Rightarrow> buffer_t \<Rightarrow> nat \<Rightarrow> buffer_t" where
  "toy_tag c iv ad plain tag_len =
     replicate tag_len (sum_list (t_key c) + sum_list iv + sum_list ad + sum_list plain)"

definition toy_auth_encrypt ::
  "toy_ctx \<Rightarrow> buffer_t \<Rightarrow> buffer_t \<Rightarrow> buffer_t \<Rightarrow> nat \<Rightarrow> toy_ctx called \<times> buffer_t" where
  "toy_auth_encrypt c iv ad input tag_len =
     (case t_info c of
        None \<Rightarrow> (Called (- 0x6100) c [] None, [])
      | Some i \<Rightarrow>
          if info_mode i \<noteq> bm_gcm then (Called (- 0x6080) c [] None, [])
          else (Called 0 c (toy_xor (c\<lparr>t_iv := iv\<rparr>) 0 input) (Some (length input)),
                toy_tag c iv ad input tag_len))"

definition toy_auth_decrypt ::
  "toy_ctx \<Rightarrow> buffer_t \<Rightarrow> buffer_t \<Rightarrow> buffer_t \<Rightarrow> buffer_t \<Rightarrow> toy_ctx called" where
  "toy_auth_decrypt c iv ad input tag =
     (case t_info c of
        None \<Rightarrow> Called (- 0x6100) c [] None
      | Some i \<Rightarrow>
          if info_mode i \<noteq> bm_gcm then Called (- 0x6080) c [] None
          else
            (let plain = toy_xor (c\<lparr>t_iv := iv\<rparr>) 0 input in
             if tag = toy_tag c iv ad plain (length tag)
             then Called 0 c plain (Some (length input))
             else Called (- 0x6300) c plain (Some (length input))))"

definition toy_update_ad :: "toy_ctx \<Rightarrow> buffer_t \<Rightarrow> int \<times> toy_ctx" where
  "toy_update_ad c ad =
     (case t_info c of
        None \<Rightarrow> (- 0x6100, c)
      | Some i \<Rightarrow> if info_mode i = bm_gcm then (0, c) else (- 0x6100, c))"

definition toy_write_tag :: "toy_ctx \<Rightarrow> nat \<Rightarrow> int \<times> toy_ctx \<times> buffer_t" where
  "toy_write_tag c tag_len =
     (case t_info c of
        None \<Rightarrow> (- 0x6100, c, [])
      | Some i \<Rightarrow>
          if info_mode i = bm_gcm then (0, c, replicate tag_len (sum_list (t_key c)))
          else (- 0x6100, c, []))"

definition toy_check_tag :: "toy_ctx \<Rightarrow> buffer_t \<Rightarrow> int \<times> toy_ctx" where
  "toy_check_tag c tag =
     (case t_info c of
        None \<Rightarrow> (- 0x6100, c)
      | Some i \<Rightarrow>
          if info_mode i \<noteq> bm_gcm then (- 0x6100, c)
          else if tag = replicate (length tag) (sum_list (t_key c)) then (0, c)
          else (- 0x6300, c))"

definition toy :: "toy_ctx mbedtls" where
  "toy =
     \<lparr>mode_aead = True,
      cipher_info_from_type = toy_registry,
      cipher_init = toy_init,
      cipher_setup = toy_setup,
      cipher_get_block_size = toy_block_size,
      ctx_cipher_info = t_info,
      cipher_set_iv = toy_set_iv,
      cipher_setkey = toy_setkey,
      cipher_set_padding_mode = toy_set_padding_mode,
      cipher_reset = toy_reset,
      cipher_update = toy_update,
      cipher_finish = toy_finish,
      cipher_crypt = toy_crypt,
      cipher_auth_encrypt = toy_auth_encrypt,
      cipher_auth_decrypt = toy_auth_decrypt,
      mode_gcm = True,
      cipher_update_ad = toy_update_ad,
      cipher_write_tag = toy_write_tag,
      cipher_check_tag = toy_check_tag\<rparr>"

text \<open>Contexts of the test double, configured as the AEAD one-shots configure them.\<close>

definition toy_aead_ctx :: "cipher_t \<Rightarrow> mode \<Rightarrow> toy_ctx cipher_impl" where
  "toy_aead_ctx ctype m =
     snd (and_then (impl_setup toy ctype (new_cipher_impl toy)) (\<lambda>_. impl_key toy [1, 2] m))"

text \<open>
  A cipher object on the test double, set up for a type and given the key \<open>[1, 2]\<close>
  and the IV \<open>[5, 6]\<close>.
\<close>

definition toy_cipher :: "toy_ctx mbedtls \<Rightarrow> cipher_t \<Rightarrow> mode \<Rightarrow> toy_ctx cipher_impl" where
  "toy_cipher M ctype m =
     snd (and_then (and_then (cipher_new M ctype) (\<lambda>_. cipher_key M [1, 2] m))
            (\<lambda>_. cipher_iv M [5, 6]))"

text \<open>
  The same library, except that its update reports the positive code 1 for the first
  block of a stream.
\<close>

definition toy_warn :: "toy_ctx mbedtls" where
  "toy_warn =
     toy\<lparr>cipher_update :=
           \<lambda>c input. case toy_update c input of
                        Called r c' w ol \<Rightarrow> Called (if t_pos c = 0 \<and> r = 0 then 1 else r) c' w ol\<rparr>"

text \<open>
  The same library, except that its update fails with \<^verbatim>\<open>BAD_INPUT_DATA\<close> once a
  block has been processed: a failure in the middle of a stream.
\<close>

definition toy_faulty :: "toy_ctx mbedtls" where
  "toy_faulty =
     toy\<lparr>cipher_update :=
           \<lambda>c input. if 2 \<le> t_pos c then Called (- 0x6100) c [] (Some 0)
                      else toy_update c input\<rparr>"

text \<open>The one-shot engine of the test double for two ECB blocks.\<close>

definition toy_engine :: "toy_ctx crypt_engine" where
  "toy_engine =
     the (returned (crypt_engine_new toy 0 pad_none [] [1, 2] encrypt_mode [10, 20, 30, 40]))"

text \<open>
  For the test double: the part of a context that no call but the key and the setup
  change, and the relation between two contexts of the same algorithm and key.
\<close>

definition toy_cfg :: "toy_ctx \<Rightarrow> cipher_info_t option \<times> buffer_t \<times> mode" where
  "toy_cfg c = (t_info c, t_key c, t_dir c)"


text \<open>
  The same library with two more types: type 4 a CBC cipher with a 16-byte IV, type 5
  one with a 15-byte IV. A cipher object that has been set up and given a key, and an
  IV of sixteen bytes.
\<close>

definition toy_wide :: "toy_ctx mbedtls" where
  "toy_wide =
     toy\<lparr>cipher_info_from_type :=
           \<lambda>ctype.
             if ctype = 4 then
               Some \<lparr>info_mode = bm_cbc, info_key_bitlen = 16, info_iv_size = 16,
                     info_block_size = 2\<rparr>
             else if ctype = 5 then
               Some \<lparr>info_mode = bm_cbc, info_key_bitlen = 16, info_iv_size = 15,
                     info_block_size = 2\<rparr>
             else toy_registry ctype\<rparr>"

definition toy_keyed :: "toy_ctx mbedtls \<Rightarrow> cipher_t \<Rightarrow> toy_ctx cipher_impl" where
  "toy_keyed M ctype =
     snd (and_then (cipher_new M ctype) (\<lambda>_. cipher_key M [1, 2] encrypt_mode))"

definition iv16 :: buffer_t where
  "iv16 = [1, 2, 3, 4, 5, 6, 7, 8, 9, 10, 11, 12, 13, 14, 15, 16]"








lemmas toy_defs =
  toy_def toy_registry_def toy_init_def toy_is_ecb_def toy_block_size_def toy_pad_byte_def
  toy_setup_def toy_set_iv_def toy_setkey_def toy_set_padding_mode_def toy_reset_def
  toy_update_def toy_finish_def toy_crypt_def toy_tag_def toy_auth_encrypt_def
  toy_auth_decrypt_def toy_cipher_def cipher_new_def cipher_key_def cipher_iv_def
  toy_update_ad_def toy_write_tag_def toy_check_tag_def

lemmas impl_defs =
  c_call_impl_def native_info_def new_cipher_impl_def impl_setup_def impl_block_size_def
  impl_iv_size_def impl_block_mode_def impl_iv_def reset_last_iv_def inline_capacity_def
  impl_key_def
  impl_padding_def store_at_def resize_def

section \<open>Facts about buffers\<close>

lemma store_at_length: "store_at buf off bs = Some buf' \<Longrightarrow> length buf' = length buf"
  by (auto simp: store_at_def split: if_splits)

lemma store_at_zeros:
  "length w \<le> n \<Longrightarrow> store_at (replicate n (0::byte)) 0 w = Some (w @ replicate (n - length w) 0)"
  by (simp add: store_at_def)

lemma length_resize: "length (resize buf n) = n"
  by (simp add: resize_def)

lemma resize_take: "n \<le> length buf \<Longrightarrow> resize buf n = take n buf"
  by (simp add: resize_def)

section \<open>Padding\<close>

text \<open>
  Claim C8. \<^verbatim>\<open>padding(none)\<close> returns without an exception and leaves the whole
  object as it was (the native context, which holds the algorithm, the key, the
  running state and the padding strategy, and the remembered IV): no primitive is
  called. For every other mode the strategy goes to
  \<^verbatim>\<open>mbedtls_cipher_set_padding_mode\<close>: the call returns when the primitive returns 0,
  throws the primitive's code otherwise, and the object holds the context the primitive
  left.
\<close>

theorem padding_none_is_noop:
  "cipher_padding M pad_none s = (Returns (), s) \<and>
   (p \<noteq> pad_none \<longrightarrow>
      cipher_padding M p s =
        (c_call_impl ''mbedtls_cipher_set_padding_mode''
           (fst (cipher_set_padding_mode M (ctx s) p)),
         s\<lparr>ctx := snd (cipher_set_padding_mode M (ctx s) p)\<rparr>))"
  by (simp add: cipher_padding_def impl_padding_def split: prod.splits)

theorem padding_none_is_noop_witness:
  "cipher_padding toy pad_none (snd (cipher_new toy 3)) = (Returns (), snd (cipher_new toy 3)) \<and>
   fst (cipher_padding toy pad_pkcs7 (snd (cipher_new toy 3))) = Returns () \<and>
   fst (cipher_padding toy pad_pkcs7 (snd (cipher_new toy 0))) =
     Throws (exception (- 0x6100) ''mbedtls_cipher_set_padding_mode'')"
  using padding_none_is_noop [of toy "snd (cipher_new toy 3)" pad_pkcs7]
    padding_none_is_noop [of toy "snd (cipher_new toy 0)" pad_pkcs7]
  by (simp add: cipher_new_def impl_defs toy_defs)

section \<open>Authenticated decryption\<close>

text \<open>
  Claim C4. Once \<^verbatim>\<open>decrypt_aead\<close> has configured its context and called the
  primitive's authenticate-and-decrypt, which stayed inside the output buffer, the
  result is decided by the primitive's code alone: the authentication-failed code
  gives the value \<open>(False, plain)\<close>, zero gives \<open>(True, plain)\<close>, every other code
  is thrown as \<^verbatim>\<open>exception{code}\<close>. In both returns \<open>plain\<close> is the output buffer as
  the primitive left it, resized to the length the primitive reported.
\<close>

theorem decrypt_aead_outcomes:
  assumes "mode_aead M"
    and "and_then (impl_setup M ctype (new_cipher_impl M)) (\<lambda>_. impl_key M key decrypt_mode)
           = (Returns (), cip)"
    and "cipher_auth_decrypt M (ctx cip) iv ad input tag = Called r c' w ol"
    and "length w \<le> length input + impl_block_size M cip"
  shows "decrypt_aead M ctype iv key ad tag input =
     (let room = length input + impl_block_size M cip;
          plain = resize (w @ replicate (room - length w) 0) (stored ol room) in
      if r = MBEDTLS_ERR_CIPHER_AUTH_FAILED then Returns (False, plain)
      else if r = 0 then Returns (True, plain)
      else Throws (exception r ''decrypt_aead''))"
  using assms by (simp add: decrypt_aead_def store_at_zeros Let_def)

theorem decrypt_aead_outcomes_witness:
  "decrypt_aead toy 2 [5, 6] [1, 2] [7] [81, 81] [4, 27, 14] = Returns (True, [10, 20, 30]) \<and>
   decrypt_aead toy 2 [5, 6] [1, 2] [7] [80, 81] [4, 27, 14] = Returns (False, [10, 20, 30]) \<and>
   decrypt_aead toy 1 [5, 6] [1, 2] [7] [81, 81] [4, 27, 14] =
     Throws (exception (- 0x6080) ''decrypt_aead'')"
  using
    decrypt_aead_outcomes [where M = toy and ctype = 2 and key = "[1, 2]"
      and cip = "toy_aead_ctx 2 decrypt_mode" and iv = "[5, 6]" and ad = "[7]"
      and input = "[4, 27, 14]" and tag = "[81, 81]" and r = 0
      and c' = "ctx (toy_aead_ctx 2 decrypt_mode)" and w = "[10, 20, 30]" and ol = "Some 3"]
    decrypt_aead_outcomes [where M = toy and ctype = 2 and key = "[1, 2]"
      and cip = "toy_aead_ctx 2 decrypt_mode" and iv = "[5, 6]" and ad = "[7]"
      and input = "[4, 27, 14]" and tag = "[80, 81]" and r = "- 0x6300"
      and c' = "ctx (toy_aead_ctx 2 decrypt_mode)" and w = "[10, 20, 30]" and ol = "Some 3"]
    decrypt_aead_outcomes [where M = toy and ctype = 1 and key = "[1, 2]"
      and cip = "toy_aead_ctx 1 decrypt_mode" and iv = "[5, 6]" and ad = "[7]"
      and input = "[4, 27, 14]" and tag = "[81, 81]" and r = "- 0x6080"
      and c' = "ctx (toy_aead_ctx 1 decrypt_mode)" and w = "[]" and ol = "None"]
  by (simp add: toy_aead_ctx_def impl_defs toy_defs Let_def MBEDTLS_ERR_CIPHER_AUTH_FAILED_def)

section \<open>Authenticated encryption\<close>

lemma store_at_Some_iff:
  "store_at buf off bs = Some buf' \<longleftrightarrow>
     off + length bs \<le> length buf \<and> buf' = take off buf @ bs @ drop (off + length bs) buf"
  by (auto simp: store_at_def)


text \<open>
  Claim C9. When \<^verbatim>\<open>encrypt_aead\<close> returns, the tag has 16 bytes whatever the
  algorithm, the primitive returned 0, and the ciphertext is the output buffer resized to
  the length the primitive reported: the first so many bytes the primitive stored. It
  is at most \<open>input_length + block_size\<close> long. The primitive is taken to report no
  more bytes than it stored.
\<close>

theorem encrypt_aead_sizes:
  assumes "encrypt_aead M ctype iv key ad input = Returns (tag, out)"
    and "cip = snd (and_then (impl_setup M ctype (new_cipher_impl M))
                     (\<lambda>_. impl_key M key encrypt_mode))"
    and "cipher_auth_encrypt M (ctx cip) iv ad input 16 = (Called r c' w ol, tw)"
    and "stored ol 0 \<le> length w"
  shows "length tag = 16 \<and> r = 0 \<and>
         out = resize (w @ replicate (length input + impl_block_size M cip - length w) 0)
                 (stored ol (length input + impl_block_size M cip)) \<and>
         length out = stored ol (length input + impl_block_size M cip) \<and>
         length out \<le> length input + impl_block_size M cip \<and>
         (\<forall>n. ol = Some n \<longrightarrow> out = take n w)"
proof -
  let ?room = "length input + impl_block_size M cip"
  from assms(1) obtain u where cfg:
    "and_then (impl_setup M ctype (new_cipher_impl M)) (\<lambda>_. impl_key M key encrypt_mode)
       = (Returns u, cip)"
    using assms(2)
    by (auto simp: encrypt_aead_def split: if_splits prod.splits outcome.splits)
  from assms(1,3) cfg obtain output' tag' where
    st: "store_at (replicate ?room (0::byte)) 0 w = Some output'"
    and tg: "store_at (replicate 16 (0::byte)) 0 tw = Some tag'"
    and r0: "r = 0"
    and res: "tag = tag'" "out = resize output' (stored ol ?room)"
    by (auto simp: encrypt_aead_def Let_def c_call_impl_def
          split: if_splits prod.splits outcome.splits option.splits)
  from st have fit: "length w \<le> ?room" and o': "output' = w @ replicate (?room - length w) 0"
    by (auto simp: store_at_Some_iff)
  from tg have "length tag' = 16"
    using store_at_length by fastforce
  moreover have "stored ol ?room \<le> ?room"
    using assms(4) fit by (cases ol) auto
  moreover have "\<forall>n. ol = Some n \<longrightarrow> out = take n w"
    using assms(4) res o' by (auto simp: resize_def)
  ultimately show ?thesis
    using r0 res o' by (simp add: length_resize)
qed

theorem encrypt_aead_sizes_witness:
  "encrypt_aead toy 2 [5, 6] [1, 2] [7] [10, 20, 30] = Returns (replicate 16 81, [4, 27, 14]) \<and>
   length (replicate 16 (81::byte)) = 16 \<and>
   length [4, 27, 14 :: byte] \<le> length [10, 20, 30 :: byte] + 2"
proof -
  have e: "encrypt_aead toy 2 [5, 6] [1, 2] [7] [10, 20, 30]
             = Returns (replicate 16 81, [4, 27, 14])"
    by (simp add: encrypt_aead_def impl_defs toy_defs Let_def)
  show ?thesis
    using e encrypt_aead_sizes [where M = toy and ctype = 2 and iv = "[5, 6]"
      and key = "[1, 2]" and ad = "[7]" and input = "[10, 20, 30]"
      and tag = "replicate 16 81" and out = "[4, 27, 14]"
      and cip = "toy_aead_ctx 2 encrypt_mode" and r = 0
      and c' = "ctx (toy_aead_ctx 2 encrypt_mode)"
      and w = "[4, 27, 14]" and ol = "Some 3" and tw = "replicate 16 81", OF e]
    by (simp add: toy_aead_ctx_def impl_defs toy_defs)
qed

section \<open>The ECB chunk driver\<close>

lemma update_chunked_loop_driver:
  "i_index = i * bsize \<Longrightarrow>
   update_chunked_loop M achunk bsize chunks i i_index o_index osize poutput c =
   chunk_driver M (map (\<lambda>k. take bsize (drop (k * bsize) achunk)) [i..<chunks])
     o_index osize poutput c"
proof (induction M achunk bsize chunks i i_index o_index osize poutput c
        rule: update_chunked_loop.induct)
  case (1 M achunk bsize chunks i i_index o_index osize poutput c)
  show ?case
  proof (cases "i < chunks")
    case False
    then show ?thesis by (simp add: update_chunked_loop.simps)
  next
    case True
    then have up: "[i..<chunks] = i # [Suc i..<chunks]"
      by (simp add: upt_conv_Cons)
    show ?thesis
      using True "1.prems" "1.IH"
      by (subst update_chunked_loop.simps)
         (auto simp: up split: called.splits option.splits)
  qed
qed

lemma concat_blocks:
  "0 < n \<Longrightarrow> length xs = k * n \<Longrightarrow>
   concat (map (\<lambda>i. take n (drop (i * n) xs)) [0..<k]) = xs"
proof (induction k arbitrary: xs)
  case 0
  then show ?case by simp
next
  case (Suc k)
  have "length (drop n xs) = k * n" using Suc.prems by simp
  from Suc.IH [OF Suc.prems(1) this]
  have "concat (map (\<lambda>i. take n (drop (Suc i * n) xs)) [0..<k]) = drop n xs"
    by (simp add: add.commute)
  then show ?case
    by (simp add: map_upt_Suc del: upt_Suc)
qed

lemma concat_blocks_of:
  assumes "0 < bsize" and "length achunk mod bsize = 0"
  shows "concat (blocks_of bsize achunk) = achunk"
proof -
  have "length achunk = (length achunk div bsize) * bsize"
    using assms(2) by (metis add.right_neutral div_mult_mod_eq)
  then show ?thesis
    unfolding blocks_of_def by (rule concat_blocks [OF assms(1)])
qed

lemma length_blocks_of:
  assumes "0 < bsize" and "length achunk mod bsize = 0" and "b \<in> set (blocks_of bsize achunk)"
  shows "length b = bsize"
proof -
  from assms(3) obtain i where i: "i < length achunk div bsize"
    and b: "b = take bsize (drop (i * bsize) achunk)"
    by (auto simp: blocks_of_def)
  have "Suc i * bsize \<le> (length achunk div bsize) * bsize"
    using i by (intro mult_le_mono1) simp
  also have "\<dots> \<le> length achunk" by simp
  finally show ?thesis using b by simp
qed

lemma update_chunked_driver:
  assumes "0 < impl_block_size M s" and "length achunk mod impl_block_size M s = 0"
  shows "update_chunked M achunk poutput osize s =
           (case chunk_driver M (blocks_of (impl_block_size M s) achunk) 0 osize poutput (ctx s) of
              (res, c) \<Rightarrow> (res, s\<lparr>ctx := c\<rparr>))"
  using assms
  by (simp add: update_chunked_def Let_def blocks_of_def update_chunked_loop_driver)

lemma chunk_driver_aborts:
  "cipher_update M c b = Called r c' w ol \<Longrightarrow> r < 0 \<Longrightarrow> store_at poutput o_index w = Some p' \<Longrightarrow>
   chunk_driver M (b # rest) o_index osize poutput c = (Returns (r, osize, p'), c')"
  by simp

lemma chunk_driver_result:
  "chunk_driver M blocks o_index osize poutput c = (Returns (r, n, p'), c') \<Longrightarrow>
   r \<le> 0 \<and> (r \<noteq> 0 \<longrightarrow> n = osize) \<and> length p' = length poutput"
proof (induction blocks arbitrary: o_index poutput c)
  case Nil
  then show ?case by simp
next
  case (Cons b rest)
  then show ?case
    by (auto split: called.splits option.splits if_splits dest: store_at_length)
qed

lemma chunk_driver_never_throws:
  "fst (chunk_driver M blocks o_index osize poutput c) \<noteq> Throws e"
  by (induction blocks arbitrary: o_index poutput c)
     (auto split: called.splits option.splits)

text \<open>
  Claim C3, as the code has it. On a block-aligned buffer \<^verbatim>\<open>update_chunked\<close> is the
  driver over the blocks of the buffer: the primitive gets the blocks one per call and
  in order, each of exactly one block size, and together they are the buffer; the
  reported lengths are added up; a negative code stops the loop at once and is the
  driver's result, with the caller's length left as it was. A code that is not
  negative does not stop it.
\<close>

theorem update_chunked_feeds_blocks:
  assumes "0 < impl_block_size M s" and "length achunk mod impl_block_size M s = 0"
  shows "update_chunked M achunk poutput osize s =
           (case chunk_driver M (blocks_of (impl_block_size M s) achunk) 0 osize poutput (ctx s) of
              (res, c) \<Rightarrow> (res, s\<lparr>ctx := c\<rparr>)) \<and>
         concat (blocks_of (impl_block_size M s) achunk) = achunk \<and>
         (\<forall>b \<in> set (blocks_of (impl_block_size M s) achunk). length b = impl_block_size M s) \<and>
         (\<forall>b rest o_index p c r c' w ol p'.
            cipher_update M c b = Called r c' w ol \<and> store_at p o_index w = Some p' \<longrightarrow>
            chunk_driver M (b # rest) o_index osize p c =
              (if r < 0 then (Returns (r, osize, p'), c')
               else chunk_driver M rest (o_index + stored ol 0) osize p' c'))"
proof -
  have "\<forall>b rest o_index p c r c' w ol p'.
            cipher_update M c b = Called r c' w ol \<and> store_at p o_index w = Some p' \<longrightarrow>
            chunk_driver M (b # rest) o_index osize p c =
              (if r < 0 then (Returns (r, osize, p'), c')
               else chunk_driver M rest (o_index + stored ol 0) osize p' c')"
    by simp
  with update_chunked_driver [OF assms] concat_blocks_of [OF assms] length_blocks_of [OF assms]
  show ?thesis by blast
qed

theorem update_chunked_feeds_blocks_witness:
  "update_chunked toy [10, 20, 30, 40] [0, 0, 0, 0] 9 (toy_cipher toy 0 encrypt_mode) =
     (Returns (0, 4, [9, 23, 29, 43]),
      (toy_cipher toy 0 encrypt_mode)\<lparr>ctx := (ctx (toy_cipher toy 0 encrypt_mode))\<lparr>t_pos := 4\<rparr>\<rparr>) \<and>
   blocks_of 2 [10, 20, 30, 40] = [[10, 20], [30, 40]] \<and>
   fst (update_chunked toy_faulty [10, 20, 30, 40] [0, 0, 0, 0] 9
          (toy_cipher toy_faulty 0 encrypt_mode)) = Returns (- 0x6100, 9, [9, 23, 0, 0])"
proof -
  have b: "blocks_of 2 [10, 20, 30, 40 :: byte] = [[10, 20], [30, 40]]"
    by (simp add: blocks_of_def upt_rec [of 0] upt_rec [of 1])
  have bs: "impl_block_size toy (toy_cipher toy 0 encrypt_mode) = 2"
    "impl_block_size toy_faulty (toy_cipher toy_faulty 0 encrypt_mode) = 2"
    by (simp_all add: toy_faulty_def impl_defs toy_defs)
  have al: "length [10, 20, 30, 40 :: byte] mod 2 = 0" "(0::nat) < 2"
    by simp_all
  have good: "update_chunked toy [10, 20, 30, 40] [0, 0, 0, 0] 9 (toy_cipher toy 0 encrypt_mode) =
     (Returns (0, 4, [9, 23, 29, 43]),
      (toy_cipher toy 0 encrypt_mode)\<lparr>ctx := (ctx (toy_cipher toy 0 encrypt_mode))\<lparr>t_pos := 4\<rparr>\<rparr>)"
    using update_chunked_feeds_blocks [of toy "toy_cipher toy 0 encrypt_mode"
        "[10, 20, 30, 40]" "[0, 0, 0, 0]" 9]
    unfolding bs b
    by (simp add: impl_defs toy_defs)
  have "update_chunked toy_faulty [10, 20, 30, 40] [0, 0, 0, 0] 9
          (toy_cipher toy_faulty 0 encrypt_mode)
        = (case chunk_driver toy_faulty [[10, 20], [30, 40]] 0 9 [0, 0, 0, 0]
                  (ctx (toy_cipher toy_faulty 0 encrypt_mode)) of
             (res, c) \<Rightarrow> (res, (toy_cipher toy_faulty 0 encrypt_mode)\<lparr>ctx := c\<rparr>))"
    using update_chunked_feeds_blocks [of toy_faulty "toy_cipher toy_faulty 0 encrypt_mode"
        "[10, 20, 30, 40]" "[0, 0, 0, 0]" 9]
    unfolding bs b using al by blast
  then have "fst (update_chunked toy_faulty [10, 20, 30, 40] [0, 0, 0, 0] 9
          (toy_cipher toy_faulty 0 encrypt_mode)) = Returns (- 0x6100, 9, [9, 23, 0, 0])"
    by (simp add: toy_faulty_def impl_defs toy_defs)
  with good b show ?thesis by blast
qed

text \<open>
  The claim as written fails for a positive code: with the primitive reporting 1 for
  the first block, the driver goes on to the second block and returns 0.
\<close>

theorem update_chunked_positive_code_counterexample:
  "ret (cipher_update toy_warn (ctx (toy_cipher toy_warn 0 encrypt_mode)) [10, 20]) = 1 \<and>
   fst (update_chunked toy_warn [10, 20, 30, 40] [0, 0, 0, 0] 9
          (toy_cipher toy_warn 0 encrypt_mode)) = Returns (0, 4, [9, 23, 29, 43])"
  by (simp add: update_chunked_def update_chunked_loop.simps toy_warn_def impl_defs toy_defs)

section \<open>The ECB precondition\<close>

lemma and_then_Returns:
  "and_then p f = (Returns y, t) \<longleftrightarrow> (\<exists>x s. p = (Returns x, s) \<and> f x s = (Returns y, t))"
proof (cases p)
  case (Pair a s)
  then show ?thesis by (cases a) auto
qed

lemma update_chunked_misaligned:
  "0 < impl_block_size M s \<Longrightarrow> length achunk mod impl_block_size M s \<noteq> 0 \<Longrightarrow>
   update_chunked M achunk poutput osize s =
     (Returns (MBEDTLS_ERR_CIPHER_FULL_BLOCK_EXPECTED, osize, poutput), s)"
  by (simp add: update_chunked_def Let_def)

lemma update_chunked_empty:
  "0 < impl_block_size M s \<Longrightarrow> update_chunked M [] poutput osize s = (Returns (0, 0, poutput), s)"
  by (simp add: update_chunked_def Let_def update_chunked_loop.simps)

text \<open>
  Claim C2, as the code has it. For an ECB type whose configuration calls succeed, an
  input that is empty or not a multiple of the block size makes the constructor of the
  one-shot engine throw \<^verbatim>\<open>usage_error\<close>, so \<^verbatim>\<open>encrypt\<close> and \<^verbatim>\<open>decrypt\<close> throw it
  and no output exists; a positive multiple gives \<open>input_length / block_size\<close> chunks;
  every other block mode gives one chunk. On a cipher object in ECB mode a streaming
  update of a length that is not a multiple of the block size reports
  \<^verbatim>\<open>MBEDTLS_ERR_CIPHER_FULL_BLOCK_EXPECTED\<close> (thrown, or returned by the \<^verbatim>\<open>noexcept\<close>
  overload) and leaves the object, the caller's memory and length as they were; an
  empty update is accepted and returns no bytes.
\<close>

theorem ecb_precondition:
  assumes reg: "cipher_info_from_type M ctype = Some cinfot"
    and bs: "0 < info_block_size cinfot"
    and cfg: "and_then (and_then (and_then (impl_setup M ctype (new_cipher_impl M))
                (\<lambda>_. impl_padding M pad)) (\<lambda>_. impl_iv M iv)) (\<lambda>_. impl_key M key m)
              = (Returns (), cim)"
    and obj: "impl_block_mode M s = Some bm_ecb" "0 < impl_block_size M s"
  shows "(info_mode cinfot = bm_ecb \<and>
            (length input = 0 \<or> length input mod info_block_size cinfot \<noteq> 0) \<longrightarrow>
          crypt_engine_new M ctype pad iv key m input = Throws (usage_error ecb_size_message) \<and>
          (if m = encrypt_mode then encrypt M ctype pad iv key input
           else decrypt M ctype pad iv key input) = Throws (usage_error ecb_size_message)) \<and>
         (info_mode cinfot = bm_ecb \<and> 0 < length input \<and>
            length input mod info_block_size cinfot = 0 \<longrightarrow>
          (\<exists>eng. crypt_engine_new M ctype pad iv key m input = Returns eng \<and>
                 e_chunks eng = length input div info_block_size cinfot)) \<and>
         (info_mode cinfot \<noteq> bm_ecb \<longrightarrow>
          (\<exists>eng. crypt_engine_new M ctype pad iv key m input = Returns eng \<and> e_chunks eng = 1)) \<and>
         (length input mod impl_block_size M s \<noteq> 0 \<longrightarrow>
          update M input s =
            (Throws (exception MBEDTLS_ERR_CIPHER_FULL_BLOCK_EXPECTED ''update''), s) \<and>
          update_noexcept M input poutput n s =
            (Returns (MBEDTLS_ERR_CIPHER_FULL_BLOCK_EXPECTED, n, poutput), s)) \<and>
         update M [] s = (Returns [], s) \<and>
         update_noexcept M [] poutput n s = (Returns (0, 0, poutput), s)"
proof -
  have new: "crypt_engine_new M ctype pad iv key m input =
     (let eng = \<lparr>e_block_mode = info_mode cinfot, e_block_size = info_block_size cinfot,
                 e_input_size = length input, e_chunks = 0, e_cim = cim, e_input = input\<rparr> in
      if info_mode cinfot = bm_ecb then
        (if length input = 0 \<or> length input mod info_block_size cinfot \<noteq> 0
         then Throws (usage_error ecb_size_message)
         else Returns (eng\<lparr>e_chunks := length input div info_block_size cinfot\<rparr>))
      else Returns (eng\<lparr>e_chunks := 1\<rparr>))"
    using reg bs cfg
    by (simp add: crypt_engine_new_def cipher_block_mode_def cipher_block_size_def
          native_info_def Let_def)
  have one: "info_mode cinfot = bm_ecb \<and>
      (length input = 0 \<or> length input mod info_block_size cinfot \<noteq> 0) \<longrightarrow>
      crypt_engine_new M ctype pad iv key m input = Throws (usage_error ecb_size_message) \<and>
      (if m = encrypt_mode then encrypt M ctype pad iv key input
       else decrypt M ctype pad iv key input) = Throws (usage_error ecb_size_message)"
    using new by (cases m) (auto simp: encrypt_def decrypt_def run_def Let_def)
  have two: "info_mode cinfot = bm_ecb \<and> 0 < length input \<and>
      length input mod info_block_size cinfot = 0 \<longrightarrow>
      (\<exists>eng. crypt_engine_new M ctype pad iv key m input = Returns eng \<and>
             e_chunks eng = length input div info_block_size cinfot)"
    using new by (auto simp: Let_def)
  have three: "info_mode cinfot \<noteq> bm_ecb \<longrightarrow>
      (\<exists>eng. crypt_engine_new M ctype pad iv key m input = Returns eng \<and> e_chunks eng = 1)"
    using new by (auto simp: Let_def)
  have four: "length input mod impl_block_size M s \<noteq> 0 \<longrightarrow>
      update M input s =
        (Throws (exception MBEDTLS_ERR_CIPHER_FULL_BLOCK_EXPECTED ''update''), s) \<and>
      update_noexcept M input poutput n s =
        (Returns (MBEDTLS_ERR_CIPHER_FULL_BLOCK_EXPECTED, n, poutput), s)"
    using obj
    by (simp add: update_def update_noexcept_def update_chunked_misaligned Let_def
          MBEDTLS_ERR_CIPHER_FULL_BLOCK_EXPECTED_def)
  have five: "update M [] s = (Returns [], s)"
    using obj by (simp add: update_def update_chunked_empty Let_def resize_def)
  have six: "update_noexcept M [] poutput n s = (Returns (0, 0, poutput), s)"
    using obj by (simp add: update_noexcept_def update_chunked_empty)
  from one two three four five six show ?thesis by blast
qed

theorem ecb_precondition_witness:
  "encrypt toy 0 pad_none [] [1, 2] [10, 20, 30] = Throws (usage_error ecb_size_message) \<and>
   decrypt toy 0 pad_none [] [1, 2] [] = Throws (usage_error ecb_size_message) \<and>
   update toy [10, 20, 30] (toy_cipher toy 0 encrypt_mode) =
     (Throws (exception (- 0x6280) ''update''), toy_cipher toy 0 encrypt_mode) \<and>
   update toy [] (toy_cipher toy 0 encrypt_mode) = (Returns [], toy_cipher toy 0 encrypt_mode)"
  using
    ecb_precondition [where M = toy and ctype = 0 and pad = pad_none and iv = "[]"
      and key = "[1, 2]" and m = encrypt_mode and input = "[10, 20, 30]"
      and cinfot = "the (toy_registry 0)"
      and cim = "\<lparr>ctx = toy_init\<lparr>t_info := toy_registry 0, t_key := [1, 2]\<rparr>, iv_data = []\<rparr>"
      and s = "toy_cipher toy 0 encrypt_mode"]
    ecb_precondition [where M = toy and ctype = 0 and pad = pad_none and iv = "[]"
      and key = "[1, 2]" and m = decrypt_mode and input = "[]"
      and cinfot = "the (toy_registry 0)"
      and cim = "\<lparr>ctx = toy_init\<lparr>t_info := toy_registry 0, t_key := [1, 2],
                   t_dir := decrypt_mode\<rparr>, iv_data = []\<rparr>"
      and s = "toy_cipher toy 0 encrypt_mode"]
  by (simp add: impl_defs toy_defs MBEDTLS_ERR_CIPHER_FULL_BLOCK_EXPECTED_def)

text \<open>
  The claim as written fails for an empty streaming update in ECB mode: it is not
  refused with \<^verbatim>\<open>FullBlockExpected\<close>, it returns an empty buffer (and the
  \<^verbatim>\<open>noexcept\<close> overload returns 0). It also fails for a one-shot call whose
  configuration is refused: the key is installed before the size is looked at, so a
  key of the wrong length is reported, not \<^verbatim>\<open>usage_error\<close>.
\<close>

theorem ecb_empty_update_counterexample:
  "impl_block_mode toy (toy_cipher toy 0 encrypt_mode) = Some bm_ecb \<and>
   fst (update toy [] (toy_cipher toy 0 encrypt_mode)) = Returns [] \<and>
   fst (update_noexcept toy [] [] 0 (toy_cipher toy 0 encrypt_mode)) = Returns (0, 0, []) \<and>
   encrypt toy 0 pad_none [] [1] [10, 20, 30] =
     Throws (exception (- 0x6100) ''mbedtls_cipher_setkey'')"
  by (simp add: update_def update_noexcept_def update_chunked_def update_chunked_loop.simps
        encrypt_def run_def crypt_engine_new_def cipher_block_mode_def cipher_block_size_def
        impl_defs toy_defs)

section \<open>Failures of the streaming update\<close>

lemma update_chunked_result:
  assumes "update_chunked M achunk poutput osize s = (Returns (r, n, p'), s')"
  shows "r \<le> 0 \<and> (r \<noteq> 0 \<longrightarrow> n = osize) \<and> length p' = length poutput \<and> iv_data s' = iv_data s"
proof (cases "impl_block_size M s = 0 \<or> length achunk mod impl_block_size M s \<noteq> 0")
  case True
  then show ?thesis
    using assms
    by (auto simp: update_chunked_def Let_def MBEDTLS_ERR_CIPHER_FULL_BLOCK_EXPECTED_def
          split: if_splits)
next
  case False
  then obtain c where
    "chunk_driver M (blocks_of (impl_block_size M s) achunk) 0 osize poutput (ctx s)
       = (Returns (r, n, p'), c)" "s' = s\<lparr>ctx := c\<rparr>"
    using assms update_chunked_driver [of M s achunk poutput osize]
    by (auto split: prod.splits)
  then show ?thesis
    using chunk_driver_result by fastforce
qed

lemma update_chunked_never_throws:
  "fst (update_chunked M achunk poutput osize s) \<noteq> Throws e"
proof (cases "impl_block_size M s = 0 \<or> length achunk mod impl_block_size M s \<noteq> 0")
  case True
  then show ?thesis
    by (auto simp: update_chunked_def Let_def)
next
  case False
  then show ?thesis
    using update_chunked_driver [of M s achunk poutput osize]
      chunk_driver_never_throws [of M "blocks_of (impl_block_size M s) achunk" 0 osize poutput "ctx s" e]
    by (auto split: prod.splits)
qed

text \<open>
  Claim C10, as the code has it. The \<^verbatim>\<open>noexcept\<close> overloads never throw. In ECB mode
  the update is the chunk driver, which assigns the caller's \<^verbatim>\<open>output_size\<close> only
  when it returns 0. In every other mode the update, and in every mode the finish,
  return the primitive's code as it is and hand the caller's \<^verbatim>\<open>output_size\<close> to the
  primitive: it holds whatever the primitive stored there, whether the call succeeded
  or not.
\<close>

theorem noexcept_overloads:
  "fst (update_noexcept M input poutput n s) \<noteq> Throws e \<and>
   fst (finish_noexcept M poutput n s) \<noteq> Throws e \<and>
   (impl_block_mode M s = Some bm_ecb \<longrightarrow>
      update_noexcept M input poutput n s = update_chunked M input poutput n s \<and>
      (\<forall>r n' p' s'. update_chunked M input poutput n s = (Returns (r, n', p'), s') \<and> r \<noteq> 0
          \<longrightarrow> n' = n)) \<and>
   (impl_block_mode M s = Some bm \<and> bm \<noteq> bm_ecb \<and>
    length (written (cipher_update M (ctx s) input)) \<le> length poutput \<longrightarrow>
      update_noexcept M input poutput n s =
        (Returns (ret (cipher_update M (ctx s) input),
                  stored (olen (cipher_update M (ctx s) input)) n,
                  written (cipher_update M (ctx s) input)
                    @ drop (length (written (cipher_update M (ctx s) input))) poutput),
         s\<lparr>ctx := ctx_after (cipher_update M (ctx s) input)\<rparr>)) \<and>
   (length (written (cipher_finish M (ctx s))) \<le> length poutput \<longrightarrow>
      finish_noexcept M poutput n s =
        (Returns (ret (cipher_finish M (ctx s)),
                  stored (olen (cipher_finish M (ctx s))) n,
                  written (cipher_finish M (ctx s))
                    @ drop (length (written (cipher_finish M (ctx s)))) poutput),
         s\<lparr>ctx := ctx_after (cipher_finish M (ctx s))\<rparr>))"
proof -
  have a: "fst (update_noexcept M input poutput n s) \<noteq> Throws e"
    using update_chunked_never_throws [of M input poutput n s e]
    by (auto simp: update_noexcept_def split: option.splits called.splits)
  have b: "fst (finish_noexcept M poutput n s) \<noteq> Throws e"
    by (auto simp: finish_noexcept_def split: option.splits called.splits)
  have c: "impl_block_mode M s = Some bm_ecb \<longrightarrow>
      update_noexcept M input poutput n s = update_chunked M input poutput n s \<and>
      (\<forall>r n' p' s'. update_chunked M input poutput n s = (Returns (r, n', p'), s') \<and> r \<noteq> 0
          \<longrightarrow> n' = n)"
    using update_chunked_result [of M input poutput n s]
    by (auto simp: update_noexcept_def)
  have d: "impl_block_mode M s = Some bm \<and> bm \<noteq> bm_ecb \<and>
    length (written (cipher_update M (ctx s) input)) \<le> length poutput \<longrightarrow>
      update_noexcept M input poutput n s =
        (Returns (ret (cipher_update M (ctx s) input),
                  stored (olen (cipher_update M (ctx s) input)) n,
                  written (cipher_update M (ctx s) input)
                    @ drop (length (written (cipher_update M (ctx s) input))) poutput),
         s\<lparr>ctx := ctx_after (cipher_update M (ctx s) input)\<rparr>)"
    by (cases "cipher_update M (ctx s) input")
       (auto simp: update_noexcept_def store_at_def)
  have f: "length (written (cipher_finish M (ctx s))) \<le> length poutput \<longrightarrow>
      finish_noexcept M poutput n s =
        (Returns (ret (cipher_finish M (ctx s)),
                  stored (olen (cipher_finish M (ctx s))) n,
                  written (cipher_finish M (ctx s))
                    @ drop (length (written (cipher_finish M (ctx s)))) poutput),
         s\<lparr>ctx := ctx_after (cipher_finish M (ctx s))\<rparr>)"
    by (cases "cipher_finish M (ctx s)")
       (auto simp: finish_noexcept_def store_at_def)
  from a b c d f show ?thesis by blast
qed

theorem noexcept_overloads_witness:
  "fst (update_noexcept toy [10, 20, 30] [0, 0, 0, 0] 9 (toy_cipher toy 1 encrypt_mode))
     = Returns (0, 3, [4, 27, 14, 0]) \<and>
   fst (finish_noexcept toy [0, 0] 7 (toy_cipher toy 1 encrypt_mode)) = Returns (0, 0, [0, 0]) \<and>
   fst (update_noexcept toy [10, 20, 30] [0, 0, 0, 0] 9 (toy_cipher toy 0 encrypt_mode))
     = Returns (- 0x6280, 9, [0, 0, 0, 0])"
  using
    noexcept_overloads [of toy "[10, 20, 30]" "[0, 0, 0, 0]" 9 "toy_cipher toy 1 encrypt_mode"
      unknown_cipher bm_ctr]
    noexcept_overloads [of toy "[10, 20, 30]" "[0, 0]" 7 "toy_cipher toy 1 encrypt_mode"
      unknown_cipher bm_ctr]
    noexcept_overloads [of toy "[10, 20, 30]" "[0, 0, 0, 0]" 9 "toy_cipher toy 0 encrypt_mode"
      unknown_cipher bm_ctr]
  by (simp add: update_chunked_def impl_defs toy_defs
        MBEDTLS_ERR_CIPHER_FULL_BLOCK_EXPECTED_def)

text \<open>
  The claim as written fails where the primitive stores a length before it fails, as
  the finish of a CBC cipher does on an incomplete last block: the caller's
  \<^verbatim>\<open>output_size\<close> of 7 is overwritten with 0 although the call failed.
\<close>

theorem finish_noexcept_size_counterexample:
  "fst (finish_noexcept toy [0, 0] 7
          (snd (update toy [10, 20, 30] (toy_cipher toy 3 encrypt_mode))))
     = Returns (- 0x6280, 0, [0, 0])"
  by (simp add: finish_noexcept_def update_def impl_defs toy_defs)

section \<open>Output sizes\<close>



lemma crypt_call_Returns:
  "crypt_call M iv src output pDes c = Returns (ol, output', c') \<longleftrightarrow>
     (\<exists>cinfot r w. ctx_cipher_info M c = Some cinfot \<and> info_iv_size cinfot \<le> length iv \<and>
        cipher_crypt M c (take (info_iv_size cinfot) iv) (info_iv_size cinfot) src
          = Called r c' w ol \<and>
        store_at output pDes w = Some output' \<and> r = 0)"
  by (auto simp: crypt_call_def c_call_impl_def
        split: option.splits called.splits if_splits)




lemma crypt_engine_new_Returns:
  assumes "crypt_engine_new M ctype pad iv key m input = Returns eng"
  shows "e_input_size eng = length input \<and> e_input eng = input \<and>
         (e_chunks eng \<noteq> 1 \<longrightarrow>
            0 < e_block_size eng \<and> length input mod e_block_size eng = 0 \<and>
            e_chunks eng = length input div e_block_size eng)"
  using assms
  by (auto simp: crypt_engine_new_def Let_def
        split: outcome.splits prod.splits if_splits)










section \<open>Restarting a stream\<close>

lemma chunk_driver_frame:
  assumes "\<And>c x. cfg (ctx_after (cipher_update M c x)) = cfg c"
  shows "cfg (snd (chunk_driver M blocks o_index osize poutput c)) = cfg c"
proof (induction blocks arbitrary: o_index poutput c)
  case Nil
  then show ?case by simp
next
  case (Cons b rest)
  obtain r c1 w ol where call: "cipher_update M c b = Called r c1 w ol"
    by (cases "cipher_update M c b")
  have "cfg c1 = cfg c" using assms [of c b] call by simp
  with call Cons.IH show ?case
    by (auto split: option.splits)
qed

lemma update_chunked_frame:
  assumes "\<And>c x. cfg (ctx_after (cipher_update M c x)) = cfg c"
  shows "cfg (ctx (snd (update_chunked M achunk poutput osize s))) = cfg (ctx s) \<and>
         iv_data (snd (update_chunked M achunk poutput osize s)) = iv_data s"
proof (cases "impl_block_size M s = 0 \<or> length achunk mod impl_block_size M s \<noteq> 0")
  case True
  then show ?thesis by (auto simp: update_chunked_def Let_def)
next
  case False
  then show ?thesis
    using update_chunked_driver [of M s achunk poutput osize]
      chunk_driver_frame [of cfg M "blocks_of (impl_block_size M s) achunk" 0 osize poutput "ctx s",
        OF assms]
    by (auto split: prod.splits)
qed

lemma update_frame:
  assumes "\<And>c x. cfg (ctx_after (cipher_update M c x)) = cfg c"
  shows "cfg (ctx (snd (update M input s))) = cfg (ctx s) \<and>
         iv_data (snd (update M input s)) = iv_data s"
proof (cases "impl_block_mode M s = Some bm_ecb")
  case True
  let ?cap = "length input + impl_block_size M s + 32"
  from update_chunked_frame [of cfg M input "replicate ?cap 0" ?cap s, OF assms] True
  show ?thesis
    by (auto simp: update_def Let_def split: prod.splits outcome.splits)
next
  case False
  obtain r c1 w ol where call: "cipher_update M (ctx s) input = Called r c1 w ol"
    by (cases "cipher_update M (ctx s) input")
  have "cfg c1 = cfg (ctx s)" using assms [of "ctx s" input] call by simp
  with False call show ?thesis
    by (auto simp: update_def Let_def split: option.splits outcome.splits)
qed

lemma updates_frame:
  assumes "\<And>c x. cfg (ctx_after (cipher_update M c x)) = cfg c"
  shows "cfg (ctx (snd (updates M xs s))) = cfg (ctx s) \<and>
         iv_data (snd (updates M xs s)) = iv_data s"
proof (induction xs arbitrary: s)
  case Nil
  then show ?case by simp
next
  case (Cons x xs)
  obtain r s1 where u: "update M x s = (r, s1)" by (cases "update M x s")
  have f1: "cfg (ctx s1) = cfg (ctx s) \<and> iv_data s1 = iv_data s"
    using update_frame [of cfg M x s, OF assms] u by simp
  show ?case
  proof (cases r)
    case (Returns out)
    obtain r2 s2 where us: "updates M xs s1 = (r2, s2)" by (cases "updates M xs s1")
    have "cfg (ctx s2) = cfg (ctx s1) \<and> iv_data s2 = iv_data s1"
      using Cons.IH [of s1] us by simp
    with f1 u us Returns show ?thesis
      by (cases r2) auto
  qed (use u f1 in auto)
qed

lemma finish_frame:
  assumes "\<And>c. cfg (ctx_after (cipher_finish M c)) = cfg c"
  shows "cfg (ctx (snd (finish M s))) = cfg (ctx s) \<and> iv_data (snd (finish M s)) = iv_data s"
proof -
  obtain r c1 w ol where call: "cipher_finish M (ctx s) = Called r c1 w ol"
    by (cases "cipher_finish M (ctx s)")
  have "cfg c1 = cfg (ctx s)" using assms [of "ctx s"] call by simp
  with call show ?thesis
    by (auto simp: finish_def Let_def split: option.splits outcome.splits)
qed

lemma start_Returns:
  "start M s = (Returns u, t) \<longleftrightarrow>
     length (iv_data s) \<le> inline_capacity \<and>
     fst (cipher_set_iv M (ctx s) (iv_data s)) = 0 \<and>
     fst (cipher_reset M (snd (cipher_set_iv M (ctx s) (iv_data s)))) = 0 \<and>
     t = \<lparr>ctx = snd (cipher_reset M (snd (cipher_set_iv M (ctx s) (iv_data s)))),
          iv_data = iv_data s\<rparr>"
  by (auto simp: start_def reset_last_iv_def impl_iv_def c_call_impl_def
        split: prod.splits if_splits)

lemma start_restart:
  assumes "restartable M cfg" and "start M s = (Returns u, t)"
    and "cfg (ctx s') = cfg (ctx s)" and "iv_data s' = iv_data s"
  shows "start M s' = (Returns u, t)"
proof -
  from assms(1,3) have
    same: "fst (cipher_set_iv M (ctx s') (iv_data s)) = fst (cipher_set_iv M (ctx s) (iv_data s))"
    and rs: "fst (cipher_set_iv M (ctx s') (iv_data s)) = 0 \<longrightarrow>
       cipher_reset M (snd (cipher_set_iv M (ctx s') (iv_data s)))
         = cipher_reset M (snd (cipher_set_iv M (ctx s) (iv_data s)))"
    unfolding restartable_def by blast+
  with assms(2,4) show ?thesis
    by (simp add: start_Returns)
qed

lemma start_frame:
  assumes "restartable M cfg" and "start M s = (Returns u, t)"
  shows "cfg (ctx t) = cfg (ctx s) \<and> iv_data t = iv_data s"
proof -
  from assms(1) have
    "\<And>c v. cfg (snd (cipher_set_iv M c v)) = cfg c" "\<And>c. cfg (snd (cipher_reset M c)) = cfg c"
    unfolding restartable_def by blast+
  with assms(2) show ?thesis
    by (simp add: start_Returns)
qed

lemma toy_restartable: "restartable toy toy_cfg"
  unfolding restartable_def
  by (auto simp: toy_def toy_cfg_def toy_set_iv_def toy_reset_def toy_update_def toy_finish_def
        split: option.splits)

text \<open>
  What holds of a restart when the remembered IV lives inside the string object: on a
  restartable primitive, a message that has run to its end can be run again on the
  object as it is then, with the same outputs; the remembered IV is unchanged, a
  \<^verbatim>\<open>start()\<close> that returns has installed the remembered IV and then reset the
  context, and a second \<^verbatim>\<open>start()\<close> changes nothing. A message can only run to its
  end when its \<^verbatim>\<open>start()\<close> returned, which a longer IV prevents.
\<close>

lemma restart_with_inline_iv:
  assumes "restartable M cfg" and "message M chunks s = (Returns res, s')"
  shows "length (iv_data s) \<le> inline_capacity \<and>
         message M chunks s' = (Returns res, s') \<and> iv_data s' = iv_data s \<and>
         (\<forall>t. start M s = (Returns (), t) \<longrightarrow>
            t = \<lparr>ctx = snd (cipher_reset M (snd (cipher_set_iv M (ctx s) (iv_data s)))),
                 iv_data = iv_data s\<rparr> \<and>
            start M t = (Returns (), t))"
proof -
  from assms(1) have
    fu: "\<And>c x. cfg (ctx_after (cipher_update M c x)) = cfg c"
    and ff: "\<And>c. cfg (ctx_after (cipher_finish M c)) = cfg c"
    unfolding restartable_def by blast+
  from assms(2) obtain sA where st: "start M s = (Returns (), sA)"
    and rest: "and_then (updates M chunks sA)
          (\<lambda>outs s2. and_then (finish M s2) (\<lambda>fin s3. (Returns (outs, fin), s3)))
        = (Returns res, s')"
    by (auto simp: message_def and_then_Returns)
  from rest obtain outs sB where up: "updates M chunks sA = (Returns outs, sB)"
    and fin: "and_then (finish M sB) (\<lambda>fin s3. (Returns (outs, fin), s3)) = (Returns res, s')"
    by (auto simp: and_then_Returns)
  from fin obtain f where fi: "finish M sB = (Returns f, s')"
    by (auto simp: and_then_Returns)
  have a: "cfg (ctx sA) = cfg (ctx s) \<and> iv_data sA = iv_data s"
    using start_frame [OF assms(1) st] .
  have b: "cfg (ctx sB) = cfg (ctx sA) \<and> iv_data sB = iv_data sA"
    using updates_frame [of cfg M chunks sA, OF fu] up by simp
  have c: "cfg (ctx s') = cfg (ctx sB) \<and> iv_data s' = iv_data sB"
    using finish_frame [of cfg M sB, OF ff] fi by simp
  from a b c have same: "cfg (ctx s') = cfg (ctx s)" "iv_data s' = iv_data s" by simp_all
  from start_restart [OF assms(1) st same] have "start M s' = (Returns (), sA)" .
  with rest have "message M chunks s' = (Returns res, s')"
    by (simp add: message_def)
  moreover have "t = \<lparr>ctx = snd (cipher_reset M (snd (cipher_set_iv M (ctx s) (iv_data s)))),
                        iv_data = iv_data s\<rparr> \<and> start M t = (Returns (), t)"
    if "start M s = (Returns (), t)" for t
  proof
    show "t = \<lparr>ctx = snd (cipher_reset M (snd (cipher_set_iv M (ctx s) (iv_data s)))),
                 iv_data = iv_data s\<rparr>"
      using that by (simp add: start_Returns)
    show "start M t = (Returns (), t)"
      using start_restart [OF assms(1) that] start_frame [OF assms(1) that] by simp
  qed
  moreover have "length (iv_data s) \<le> inline_capacity"
    using st by (simp add: start_Returns)
  ultimately show ?thesis using same by blast
qed


lemma restart_with_inline_iv_example:
  "fst (message toy [[10, 20, 30], [40]] (toy_cipher toy 1 encrypt_mode))
     = Returns ([[4, 27, 14], [57]], []) \<and>
   fst (message toy [[10, 20, 30], [40]]
          (snd (message toy [[10, 20, 30], [40]] (toy_cipher toy 1 encrypt_mode))))
     = Returns ([[4, 27, 14], [57]], [])"
proof -
  let ?s = "toy_cipher toy 1 encrypt_mode"
  let ?m = "message toy [[10, 20, 30], [40]] ?s"
  have e: "fst ?m = Returns ([[4, 27, 14], [57]], [])"
    by (simp add: message_def start_def update_def finish_def impl_defs toy_defs)
  then have "?m = (Returns ([[4, 27, 14], [57]], []), snd ?m)"
    by (metis prod.collapse)
  from restart_with_inline_iv [OF toy_restartable this] e show ?thesis
    by simp
qed

text \<open>
  Claim C7. The claim is that after a finished message \<^verbatim>\<open>start()\<close> re-installs the
  remembered IV, so that the same updates give the same output. The code does not do
  that for an IV of 16 bytes, the IV of every AES mode: \<^verbatim>\<open>iv(bytes)\<close> succeeds and
  remembers the 16 bytes, but \<^verbatim>\<open>start()\<close> hands the primitive a view of storage that
  the assignment inside \<^verbatim>\<open>iv\<close> has just released, so neither \<^verbatim>\<open>start()\<close> nor a message
  begun with it has a defined result. With the same key and a 15-byte IV the same
  calls are defined.
\<close>

theorem start_reads_released_iv:
  "fst (cipher_iv toy_wide iv16 (toy_keyed toy_wide 4)) = Returns () \<and>
   iv_data (snd (cipher_iv toy_wide iv16 (toy_keyed toy_wide 4))) = iv16 \<and>
   fst (start toy_wide (snd (cipher_iv toy_wide iv16 (toy_keyed toy_wide 4)))) = Undefined \<and>
   fst (message toy_wide [[10, 20]] (snd (cipher_iv toy_wide iv16 (toy_keyed toy_wide 4))))
     = Undefined \<and>
   fst (start toy_wide (snd (cipher_iv toy_wide (butlast iv16) (toy_keyed toy_wide 5))))
     = Returns ()"
  by (simp add: message_def start_def toy_wide_def toy_keyed_def iv16_def impl_defs toy_defs)

section \<open>The round trip of the one-shot interface\<close>

lemma compute_loop_driver:
  "pSrc = i * bs \<Longrightarrow>
   compute_loop M iv input bs chunks i osize pSrc pDes obuf c =
   crypt_driver M iv (map (\<lambda>k. take bs (drop (k * bs) input)) [i..<chunks]) bs osize pDes obuf c"
proof (induction M iv input bs chunks i osize pSrc pDes obuf c rule: compute_loop.induct)
  case (1 M iv input block_size chunks i osize pSrc pDes obuf c)
  show ?case
  proof (cases "i < chunks")
    case False
    then show ?thesis by (simp add: compute_loop.simps)
  next
    case True
    then have up: "[i..<chunks] = i # [Suc i..<chunks]"
      by (simp add: upt_conv_Cons)
    show ?thesis
      using True "1.prems" "1.IH"
      by (subst compute_loop.simps)
         (auto simp: up split: outcome.splits)
  qed
qed


















section \<open>Failures and partial output\<close>

lemma crypt_driver_codes:
  "crypt_driver M iv blocks bs osize pDes obuf c = Returns (n, obuf') \<Longrightarrow>
   crypt_codes M iv blocks c = replicate (length blocks) 0"
proof (induction blocks arbitrary: osize pDes obuf c)
  case Nil
  then show ?case by simp
next
  case (Cons b rest)
  from Cons.prems obtain ol obuf1 c1 where
    call: "crypt_call M iv b obuf pDes c = Returns (ol, obuf1, c1)"
    and rest: "crypt_driver M iv rest bs (osize + stored ol 0) (pDes + bs) obuf1 c1 = Returns (n, obuf')"
    by (auto split: outcome.splits)
  from call obtain cinfot :: cipher_info_t and w where
    "ctx_cipher_info M c = Some cinfot"
    "cipher_crypt M c (take (info_iv_size cinfot) iv) (info_iv_size cinfot) b = Called 0 c1 w ol"
    by (auto simp: crypt_call_Returns)
  with Cons.IH [OF rest] show ?case by simp
qed

lemma run_Returns_codes:
  assumes "run M ctype pad iv key m input = Returns out"
  shows "\<exists>eng. crypt_engine_new M ctype pad iv key m input = Returns eng \<and>
           crypt_codes M (iv_data (e_cim eng)) (engine_blocks eng) (ctx (e_cim eng))
             = replicate (length (engine_blocks eng)) 0"
proof -
  from assms obtain eng where new: "crypt_engine_new M ctype pad iv key m input = Returns eng"
    and comp: "compute M eng = Returns out"
    by (auto simp: run_def split: outcome.splits)
  note inv = crypt_engine_new_Returns [OF new]
  have "crypt_codes M (iv_data (e_cim eng)) (engine_blocks eng) (ctx (e_cim eng))
          = replicate (length (engine_blocks eng)) 0"
  proof (cases "e_chunks eng = 1")
    case True
    with comp inv obtain ol obuf c' where
      "crypt_call M (iv_data (e_cim eng)) (e_input eng) (replicate (output_size eng) 0) 0
         (ctx (e_cim eng)) = Returns (ol, obuf, c')"
      by (auto simp: compute_def Let_def split: outcome.splits)
    then show ?thesis
      using True by (auto simp: engine_blocks_def crypt_call_Returns)
  next
    case False
    with comp inv obtain n obuf where
      "compute_loop M (iv_data (e_cim eng)) (e_input eng) (e_block_size eng) (e_chunks eng)
         0 0 0 0 (replicate (output_size eng) 0) (ctx (e_cim eng)) = Returns (n, obuf)"
      by (auto simp: compute_def Let_def split: outcome.splits)
    then have "crypt_driver M (iv_data (e_cim eng)) (blocks_of (e_block_size eng) (e_input eng))
         (e_block_size eng) 0 0 (replicate (output_size eng) 0) (ctx (e_cim eng)) = Returns (n, obuf)"
      using False inv by (simp add: compute_loop_driver blocks_of_def)
    from crypt_driver_codes [OF this] False show ?thesis
      by (simp add: engine_blocks_def)
  qed
  with new show ?thesis by blast
qed

lemma chunk_driver_append:
  "chunk_driver M pre o_index osize p c = (Returns (0, o1, p1), c1) \<Longrightarrow>
   chunk_driver M (pre @ post) o_index osize p c = chunk_driver M post o1 osize p1 c1"
proof (induction pre arbitrary: o_index p c)
  case Nil
  then show ?case by simp
next
  case (Cons b rest)
  obtain r c2 w ol where call: "cipher_update M c b = Called r c2 w ol"
    by (cases "cipher_update M c b")
  from Cons.prems call obtain p2 where st: "store_at p o_index w = Some p2"
    and nr: "\<not> r < 0"
    and rest: "chunk_driver M rest (o_index + stored ol 0) osize p2 c2 = (Returns (0, o1, p1), c1)"
    by (auto split: option.splits if_splits)
  from Cons.IH [OF rest] call st nr show ?case by simp
qed

lemma blocks_of_concat:
  assumes "0 < bs" and "\<forall>x \<in> set xs. length x = bs"
  shows "blocks_of bs (concat xs) = xs"
  using assms(2)
proof (induction xs)
  case Nil
  then show ?case by (simp add: blocks_of_def)
next
  case (Cons x rest)
  then have lx: "length x = bs" and ih: "blocks_of bs (concat rest) = rest"
    and lr: "\<forall>y \<in> set rest. length y = bs"
    by simp_all
  have lc: "length (concat rest) = length rest * bs"
    using lr by (induction rest) simp_all
  have d: "length (concat (x # rest)) div bs = Suc (length rest)"
    using lx lc assms(1) by simp
  have "map (\<lambda>i. take bs (drop (i * bs) (x @ concat rest))) [0..<Suc (length rest)]
        = x # map (\<lambda>i. take bs (drop (i * bs) (concat rest))) [0..<length rest]"
    using lx by (simp add: map_upt_Suc del: upt_Suc)
  also have "map (\<lambda>i. take bs (drop (i * bs) (concat rest))) [0..<length rest] = rest"
    using ih lc assms(1) by (simp add: blocks_of_def)
  finally show ?case
    using d by (simp add: blocks_of_def)
qed

lemma store_at_prefix:
  "store_at p o_index w = Some p' \<Longrightarrow> take o_index p' = take o_index p"
  by (auto simp: store_at_Some_iff)

lemma update_chunked_midstream:
  assumes bs: "0 < impl_block_size M s"
    and len: "\<forall>x \<in> set (pre @ b # rest). length x = impl_block_size M s"
    and pre: "chunk_driver M pre 0 n p (ctx s) = (Returns (0, o1, p1), c1)"
    and call: "cipher_update M c1 b = Called r c2 w ol" and neg: "r < 0"
    and st: "store_at p1 o1 w = Some p2"
  shows "update_chunked M (concat (pre @ b # rest)) p n s = (Returns (r, n, p2), s\<lparr>ctx := c2\<rparr>) \<and>
         take o1 p2 = take o1 p1"
proof -
  let ?bs = "impl_block_size M s"
  have lc: "length (concat xs) mod ?bs = 0" if "\<forall>x \<in> set xs. length x = ?bs" for xs :: "buffer_t list"
    using that by (induction xs) simp_all
  have al: "length (concat (pre @ b # rest)) mod ?bs = 0"
    using lc [OF len] .
  have "chunk_driver M (pre @ b # rest) 0 n p (ctx s) = chunk_driver M (b # rest) o1 n p1 c1"
    by (rule chunk_driver_append [OF pre])
  also have "\<dots> = (Returns (r, n, p2), c2)"
    using call neg st by simp
  finally have "chunk_driver M (blocks_of ?bs (concat (pre @ b # rest))) 0 n p (ctx s)
      = (Returns (r, n, p2), c2)"
    by (simp only: blocks_of_concat [OF bs len])
  with update_chunked_driver [OF bs al, of p n] store_at_prefix [OF st]
  show ?thesis by simp
qed

text \<open>
  Claim C5, as the code has it. Every operation that returns a buffer of its own
  returns it only when every call of the primitive, or the chunk driver, reported
  success, and otherwise throws an exception, which carries the code and no bytes: the
  one-shot \<^verbatim>\<open>encrypt\<close> and \<^verbatim>\<open>decrypt\<close> return only when the engine was built and
  every one-shot call on its blocks returned 0; \<^verbatim>\<open>encrypt_aead\<close>, \<^verbatim>\<open>decrypt_aead\<close> (for
  a code other than the failed tag check), \<^verbatim>\<open>update(input)\<close> in ECB and in every other
  mode, \<^verbatim>\<open>finish()\<close> and \<^verbatim>\<open>gcm_encryption_tag\<close> are the exception for a non-zero code
  and the buffer for 0; \<^verbatim>\<open>crypt\<close> returns only when \<^verbatim>\<open>start()\<close> returned and both the
  update and the finish returned 0.

  The overloads that write into the caller's memory report the failure, by an exception
  (\<^verbatim>\<open>update\<close> and \<^verbatim>\<open>finish\<close> with a buffer and an index) or by the code (the \<^verbatim>\<open>noexcept\<close>
  ones), but what the primitive stored is in the caller's memory all the same: the
  memory they leave is the memory the driver or the primitive left, whatever the code;
  a store keeps the size and the bytes before the index and puts the stored bytes
  behind it. In ECB mode, when the blocks before a block succeed and the primitive
  fails on that block with a negative code, the update of the whole input returns that
  code and the caller's length as it was, and the bytes the earlier blocks produced are
  where their run alone would have put them.
\<close>

theorem failed_operation_output:
  "(encrypt M ctype pad iv key input = Returns out \<longrightarrow>
      (\<exists>eng. crypt_engine_new M ctype pad iv key encrypt_mode input = Returns eng \<and>
         crypt_codes M (iv_data (e_cim eng)) (engine_blocks eng) (ctx (e_cim eng))
           = replicate (length (engine_blocks eng)) 0)) \<and>
   (decrypt M ctype pad iv key input = Returns out \<longrightarrow>
      (\<exists>eng. crypt_engine_new M ctype pad iv key decrypt_mode input = Returns eng \<and>
         crypt_codes M (iv_data (e_cim eng)) (engine_blocks eng) (ctx (e_cim eng))
           = replicate (length (engine_blocks eng)) 0)) \<and>
   (mode_aead M \<and>
    and_then (impl_setup M ctype (new_cipher_impl M)) (\<lambda>_. impl_key M key encrypt_mode)
      = (Returns (), cip) \<and>
    cipher_auth_encrypt M (ctx cip) iv ad input 16 = (Called r c' w ol, tag_written) \<and>
    store_at (replicate (length input + impl_block_size M cip) 0) 0 w = Some p \<and>
    store_at (replicate 16 0) 0 tag_written = Some tag' \<longrightarrow>
      encrypt_aead M ctype iv key ad input =
        thrown_or r ''mbedtls_cipher_auth_encrypt''
          (tag', resize p (stored ol (length input + impl_block_size M cip)))) \<and>
   (mode_aead M \<and>
    and_then (impl_setup M ctype (new_cipher_impl M)) (\<lambda>_. impl_key M key decrypt_mode)
      = (Returns (), cip) \<and>
    cipher_auth_decrypt M (ctx cip) iv ad input tag = Called r c' w ol \<and>
    store_at (replicate (length input + impl_block_size M cip) 0) 0 w = Some p \<and>
    r \<noteq> MBEDTLS_ERR_CIPHER_AUTH_FAILED \<longrightarrow>
      decrypt_aead M ctype iv key ad tag input =
        thrown_or r ''decrypt_aead''
          (True, resize p (stored ol (length input + impl_block_size M cip)))) \<and>
   (impl_block_mode M s = Some bm_ecb \<and>
    update_chunked M input (replicate (length input + impl_block_size M s + 32) 0)
      (length input + impl_block_size M s + 32) s = (Returns (r, k, p), s') \<longrightarrow>
      update M input s = (thrown_or r ''update'' (resize p k), s')) \<and>
   (impl_block_mode M s = Some bm \<and> bm \<noteq> bm_ecb \<and>
    cipher_update M (ctx s) input = Called r c' w ol \<and>
    store_at (replicate (length input + impl_block_size M s + 32) 0) 0 w = Some p \<longrightarrow>
      update M input s =
        (thrown_or r ''mbedtls_cipher_update''
           (resize p (stored ol (length input + impl_block_size M s + 32))),
         s\<lparr>ctx := c'\<rparr>)) \<and>
   (cipher_finish M (ctx s) = Called r c' w ol \<and>
    store_at (replicate (impl_block_size M s + 32) 0) 0 w = Some p \<longrightarrow>
      finish M s =
        (thrown_or r ''mbedtls_cipher_finish'' (resize p (stored ol (impl_block_size M s + 32))),
         s\<lparr>ctx := c'\<rparr>)) \<and>
   (crypt M input s = (Returns out, s') \<longrightarrow>
      (\<exists>s1. start M s = (Returns (), s1) \<and>
         ret (cipher_update M (ctx s1) input) = 0 \<and>
         ret (cipher_finish M (ctx_after (cipher_update M (ctx s1) input))) = 0)) \<and>
   (mode_gcm M \<and> cipher_write_tag M (ctx s) len = (r, c', tag_written) \<and>
    store_at (replicate len 0) 0 tag_written = Some tag' \<longrightarrow>
      gcm_encryption_tag M len s =
        (thrown_or r ''mbedtls_cipher_write_tag'' tag', s\<lparr>ctx := c'\<rparr>)) \<and>
   (impl_block_mode M s = Some bm_ecb \<and>
    in_index + count \<le> length input \<and> out_index \<le> length obuf \<and>
    update_chunked M (take count (drop in_index input)) (drop out_index obuf) 0 s
      = (Returns (r, k, region), s') \<longrightarrow>
      update_at M input in_index count obuf out_index s =
        (thrown_or r ''update'' k, take out_index obuf @ region, s')) \<and>
   (impl_block_mode M s = Some bm \<and> bm \<noteq> bm_ecb \<and>
    in_index + count \<le> length input \<and> out_index \<le> length obuf \<and>
    cipher_update M (ctx s) (take count (drop in_index input)) = Called r c' w ol \<and>
    store_at obuf out_index w = Some obuf' \<longrightarrow>
      update_at M input in_index count obuf out_index s =
        (thrown_or r ''mbedtls_cipher_update'' (stored ol 0), obuf', s\<lparr>ctx := c'\<rparr>)) \<and>
   (out_index \<le> length obuf \<and>
    cipher_finish M (ctx s) = Called r c' w ol \<and>
    store_at obuf out_index w = Some obuf' \<longrightarrow>
      finish_at M obuf out_index s =
        (thrown_or r ''mbedtls_cipher_finish'' (stored ol 0), obuf', s\<lparr>ctx := c'\<rparr>)) \<and>
   (impl_block_mode M s = Some bm_ecb \<longrightarrow>
      update_noexcept M input poutput n s = update_chunked M input poutput n s) \<and>
   (impl_block_mode M s = Some bm \<and> bm \<noteq> bm_ecb \<and>
    cipher_update M (ctx s) input = Called r c' w ol \<and>
    store_at poutput 0 w = Some p \<longrightarrow>
      update_noexcept M input poutput n s = (Returns (r, stored ol n, p), s\<lparr>ctx := c'\<rparr>)) \<and>
   (cipher_finish M (ctx s) = Called r c' w ol \<and>
    store_at poutput 0 w = Some p \<longrightarrow>
      finish_noexcept M poutput n s = (Returns (r, stored ol n, p), s\<lparr>ctx := c'\<rparr>)) \<and>
   (store_at obuf out_index w = Some obuf' \<longrightarrow>
      length obuf' = length obuf \<and> take out_index obuf' = take out_index obuf \<and>
      take (length w) (drop out_index obuf') = w) \<and>
   (0 < impl_block_size M s \<and>
    (\<forall>x \<in> set (pre @ b # rest). length x = impl_block_size M s) \<and>
    chunk_driver M pre 0 n poutput (ctx s) = (Returns (0, o1, p1), c1) \<and>
    cipher_update M c1 b = Called r c' w ol \<and> r < 0 \<and>
    store_at p1 o1 w = Some p \<longrightarrow>
      update_chunked M (concat (pre @ b # rest)) poutput n s
        = (Returns (r, n, p), s\<lparr>ctx := c'\<rparr>) \<and>
      take o1 p = take o1 p1)"
proof -
  have one_enc: "encrypt M ctype pad iv key input = Returns out \<longrightarrow>
      (\<exists>eng. crypt_engine_new M ctype pad iv key encrypt_mode input = Returns eng \<and>
         crypt_codes M (iv_data (e_cim eng)) (engine_blocks eng) (ctx (e_cim eng))
           = replicate (length (engine_blocks eng)) 0)"
    using run_Returns_codes [of M ctype pad iv key encrypt_mode input out]
    by (simp add: encrypt_def)
  have one_dec: "decrypt M ctype pad iv key input = Returns out \<longrightarrow>
      (\<exists>eng. crypt_engine_new M ctype pad iv key decrypt_mode input = Returns eng \<and>
         crypt_codes M (iv_data (e_cim eng)) (engine_blocks eng) (ctx (e_cim eng))
           = replicate (length (engine_blocks eng)) 0)"
    using run_Returns_codes [of M ctype pad iv key decrypt_mode input out]
    by (simp add: decrypt_def)
  have aead_enc: "mode_aead M \<and>
    and_then (impl_setup M ctype (new_cipher_impl M)) (\<lambda>_. impl_key M key encrypt_mode)
      = (Returns (), cip) \<and>
    cipher_auth_encrypt M (ctx cip) iv ad input 16 = (Called r c' w ol, tag_written) \<and>
    store_at (replicate (length input + impl_block_size M cip) 0) 0 w = Some p \<and>
    store_at (replicate 16 0) 0 tag_written = Some tag' \<longrightarrow>
      encrypt_aead M ctype iv key ad input =
        thrown_or r ''mbedtls_cipher_auth_encrypt''
          (tag', resize p (stored ol (length input + impl_block_size M cip)))"
    by (simp add: encrypt_aead_def Let_def thrown_or_def c_call_impl_def)
  have aead_dec: "mode_aead M \<and>
    and_then (impl_setup M ctype (new_cipher_impl M)) (\<lambda>_. impl_key M key decrypt_mode)
      = (Returns (), cip) \<and>
    cipher_auth_decrypt M (ctx cip) iv ad input tag = Called r c' w ol \<and>
    store_at (replicate (length input + impl_block_size M cip) 0) 0 w = Some p \<and>
    r \<noteq> MBEDTLS_ERR_CIPHER_AUTH_FAILED \<longrightarrow>
      decrypt_aead M ctype iv key ad tag input =
        thrown_or r ''decrypt_aead''
          (True, resize p (stored ol (length input + impl_block_size M cip)))"
    by (simp add: decrypt_aead_def Let_def thrown_or_def)
  have upd_ecb: "impl_block_mode M s = Some bm_ecb \<and>
    update_chunked M input (replicate (length input + impl_block_size M s + 32) 0)
      (length input + impl_block_size M s + 32) s = (Returns (r, k, p), s') \<longrightarrow>
      update M input s = (thrown_or r ''update'' (resize p k), s')"
    by (simp add: update_def Let_def thrown_or_def)
  have upd: "impl_block_mode M s = Some bm \<and> bm \<noteq> bm_ecb \<and>
    cipher_update M (ctx s) input = Called r c' w ol \<and>
    store_at (replicate (length input + impl_block_size M s + 32) 0) 0 w = Some p \<longrightarrow>
      update M input s =
        (thrown_or r ''mbedtls_cipher_update''
           (resize p (stored ol (length input + impl_block_size M s + 32))),
         s\<lparr>ctx := c'\<rparr>)"
    by (simp add: update_def Let_def thrown_or_def c_call_impl_def)
  have fin: "cipher_finish M (ctx s) = Called r c' w ol \<and>
    store_at (replicate (impl_block_size M s + 32) 0) 0 w = Some p \<longrightarrow>
      finish M s =
        (thrown_or r ''mbedtls_cipher_finish'' (resize p (stored ol (impl_block_size M s + 32))),
         s\<lparr>ctx := c'\<rparr>)"
    by (simp add: finish_def Let_def thrown_or_def c_call_impl_def)
  have cry: "crypt M input s = (Returns out, s') \<longrightarrow>
      (\<exists>s1. start M s = (Returns (), s1) \<and>
         ret (cipher_update M (ctx s1) input) = 0 \<and>
         ret (cipher_finish M (ctx_after (cipher_update M (ctx s1) input))) = 0)"
  proof
    assume cr: "crypt M input s = (Returns out, s')"
    obtain a s1 where st: "start M s = (a, s1)"
      by (cases "start M s")
    with cr have a: "a = Returns ()"
      by (cases a) (auto simp: crypt_def)
    obtain r2 c2 w2 ol2 where u: "cipher_update M (ctx s1) input = Called r2 c2 w2 ol2"
      by (cases "cipher_update M (ctx s1) input")
    obtain r3 c3 w3 ol3 where f: "cipher_finish M c2 = Called r3 c3 w3 ol3"
      by (cases "cipher_finish M c2")
    from cr st a u f have "r2 = 0 \<and> r3 = 0"
      by (auto simp: crypt_def Let_def c_call_impl_def split: option.splits if_splits)
    with st a u f show "\<exists>s1. start M s = (Returns (), s1) \<and>
         ret (cipher_update M (ctx s1) input) = 0 \<and>
         ret (cipher_finish M (ctx_after (cipher_update M (ctx s1) input))) = 0"
      by simp
  qed
  have gcm: "mode_gcm M \<and> cipher_write_tag M (ctx s) len = (r, c', tag_written) \<and>
    store_at (replicate len 0) 0 tag_written = Some tag' \<longrightarrow>
      gcm_encryption_tag M len s =
        (thrown_or r ''mbedtls_cipher_write_tag'' tag', s\<lparr>ctx := c'\<rparr>)"
    by (simp add: gcm_encryption_tag_def Let_def thrown_or_def c_call_impl_def)
  have at_ecb: "impl_block_mode M s = Some bm_ecb \<and>
    in_index + count \<le> length input \<and> out_index \<le> length obuf \<and>
    update_chunked M (take count (drop in_index input)) (drop out_index obuf) 0 s
      = (Returns (r, k, region), s') \<longrightarrow>
      update_at M input in_index count obuf out_index s =
        (thrown_or r ''update'' k, take out_index obuf @ region, s')"
    by (simp add: update_at_def thrown_or_def)
  have at: "impl_block_mode M s = Some bm \<and> bm \<noteq> bm_ecb \<and>
    in_index + count \<le> length input \<and> out_index \<le> length obuf \<and>
    cipher_update M (ctx s) (take count (drop in_index input)) = Called r c' w ol \<and>
    store_at obuf out_index w = Some obuf' \<longrightarrow>
      update_at M input in_index count obuf out_index s =
        (thrown_or r ''mbedtls_cipher_update'' (stored ol 0), obuf', s\<lparr>ctx := c'\<rparr>)"
    by (simp add: update_at_def thrown_or_def c_call_impl_def)
  have fin_at: "out_index \<le> length obuf \<and>
    cipher_finish M (ctx s) = Called r c' w ol \<and>
    store_at obuf out_index w = Some obuf' \<longrightarrow>
      finish_at M obuf out_index s =
        (thrown_or r ''mbedtls_cipher_finish'' (stored ol 0), obuf', s\<lparr>ctx := c'\<rparr>)"
    by (simp add: finish_at_def thrown_or_def c_call_impl_def)
  have ne_ecb: "impl_block_mode M s = Some bm_ecb \<longrightarrow>
      update_noexcept M input poutput n s = update_chunked M input poutput n s"
    by (simp add: update_noexcept_def)
  have ne: "impl_block_mode M s = Some bm \<and> bm \<noteq> bm_ecb \<and>
    cipher_update M (ctx s) input = Called r c' w ol \<and>
    store_at poutput 0 w = Some p \<longrightarrow>
      update_noexcept M input poutput n s = (Returns (r, stored ol n, p), s\<lparr>ctx := c'\<rparr>)"
    by (simp add: update_noexcept_def)
  have fin_ne: "cipher_finish M (ctx s) = Called r c' w ol \<and>
    store_at poutput 0 w = Some p \<longrightarrow>
      finish_noexcept M poutput n s = (Returns (r, stored ol n, p), s\<lparr>ctx := c'\<rparr>)"
    by (simp add: finish_noexcept_def)
  have st: "store_at obuf out_index w = Some obuf' \<longrightarrow>
      length obuf' = length obuf \<and> take out_index obuf' = take out_index obuf \<and>
      take (length w) (drop out_index obuf') = w"
    by (auto simp: store_at_Some_iff)
  have mid: "0 < impl_block_size M s \<and>
    (\<forall>x \<in> set (pre @ b # rest). length x = impl_block_size M s) \<and>
    chunk_driver M pre 0 n poutput (ctx s) = (Returns (0, o1, p1), c1) \<and>
    cipher_update M c1 b = Called r c' w ol \<and> r < 0 \<and>
    store_at p1 o1 w = Some p \<longrightarrow>
      update_chunked M (concat (pre @ b # rest)) poutput n s
        = (Returns (r, n, p), s\<lparr>ctx := c'\<rparr>) \<and>
      take o1 p = take o1 p1"
    using update_chunked_midstream [of M s pre b rest n poutput o1 p1 c1 r c' w ol p]
    by blast
  from one_enc one_dec aead_enc aead_dec upd_ecb upd fin cry gcm at_ecb at fin_at
    ne_ecb ne fin_ne st mid
  show ?thesis
    by (intro conjI)
qed

theorem failed_operation_output_witness:
  "update_at toy_faulty [10, 20, 30, 40] 0 4 [0, 0, 0, 0] 0 (toy_cipher toy_faulty 0 encrypt_mode)
     = (Throws (exception (- 0x6100) ''update''), [9, 23, 0, 0],
        snd (update_noexcept toy_faulty [10, 20] [0, 0, 0, 0] 9
               (toy_cipher toy_faulty 0 encrypt_mode))) \<and>
   fst (update_noexcept toy_faulty (concat [[10, 20], [30, 40]]) [0, 0, 0, 0] 9
          (toy_cipher toy_faulty 0 encrypt_mode)) = Returns (- 0x6100, 9, [9, 23, 0, 0]) \<and>
   fst (update_noexcept toy_faulty [10, 20] [0, 0, 0, 0] 9
          (toy_cipher toy_faulty 0 encrypt_mode)) = Returns (0, 2, [9, 23, 0, 0]) \<and>
   fst (finish_at toy [7, 7] 1 (snd (update toy [10, 20, 30] (toy_cipher toy 3 encrypt_mode))))
     = Throws (exception (- 0x6280) ''mbedtls_cipher_finish'') \<and>
   fst (finish_noexcept toy [0, 0] 7 (snd (update toy [10, 20, 30] (toy_cipher toy 3 encrypt_mode))))
     = Returns (- 0x6280, 0, [0, 0]) \<and>
   encrypt toy 0 pad_none [] [1, 2] [10, 20, 30, 40] = Returns [9, 23, 29, 43] \<and>
   crypt_codes toy (iv_data (e_cim toy_engine)) (engine_blocks toy_engine) (ctx (e_cim toy_engine))
     = replicate (length (engine_blocks toy_engine)) 0"
proof -
  let ?s = "toy_cipher toy_faulty 0 encrypt_mode"
  let ?c1 = "ctx_after (cipher_update toy_faulty (ctx ?s) [10, 20])"
  let ?t = "snd (update toy [10, 20, 30] (toy_cipher toy 3 encrypt_mode))"
  have ecb: "impl_block_mode toy_faulty ?s = Some bm_ecb"
    and bs: "impl_block_size toy_faulty ?s = 2"
    by (simp_all add: toy_faulty_def impl_defs toy_defs)
  have first: "update_noexcept toy_faulty [10, 20] [0, 0, 0, 0] 9 ?s
                 = (Returns (0, 2, [9, 23, 0, 0]), ?s\<lparr>ctx := ?c1\<rparr>)"
    by (simp add: update_noexcept_def update_chunked_def update_chunked_loop.simps
          toy_faulty_def impl_defs toy_defs)
  have pre: "chunk_driver toy_faulty [[10, 20]] 0 9 [0, 0, 0, 0] (ctx ?s)
               = (Returns (0, 2, [9, 23, 0, 0]), ?c1)"
    by (simp add: toy_faulty_def impl_defs toy_defs)
  have fails: "cipher_update toy_faulty ?c1 [30, 40] = Called (- 0x6100) ?c1 [] (Some 0)"
    by (simp add: toy_faulty_def impl_defs toy_defs)
  have neg: "(- 0x6100 :: int) < 0"
    by simp
  have st: "store_at [9, 23, 0, 0] 2 [] = Some [9, 23, 0, 0 :: byte]"
    by (simp add: store_at_def)
  have pos: "0 < impl_block_size toy_faulty ?s"
    using bs by simp
  have lens: "\<forall>x \<in> set ([[10, 20]] @ [30, 40] # []). length x = impl_block_size toy_faulty ?s"
    using bs by simp
  have region: "update_chunked toy_faulty (take 4 (drop 0 [10, 20, 30, 40])) (drop 0 [0, 0, 0, 0]) 0 ?s
                  = (Returns (- 0x6100, 0, [9, 23, 0, 0]), ?s\<lparr>ctx := ?c1\<rparr>)"
    by (simp add: update_chunked_def update_chunked_loop.simps toy_faulty_def impl_defs toy_defs)
  note A = failed_operation_output
      [where M = "toy_faulty" and ctype = "0" and pad = "pad_none" and iv = "[]" and key = "[]" and
        input = "[10, 20, 30, 40]" and out = "[]" and cip = "?s" and r = "- 0x6100" and c' =
        "?c1" and w = "[]" and ol = "Some 0" and tag_written = "[]" and p = "[9, 23, 0, 0]" and
        tag' = "[]" and ad = "[]" and tag = "[]" and s = "?s" and k = "0" and s' =
        "?s\<lparr>ctx := ?c1\<rparr>" and bm = "bm_ecb" and len = "0" and in_index = "0" and
        count = "4" and out_index = "0" and obuf = "[0, 0, 0, 0]" and region = "[9, 23, 0, 0]"
        and obuf' = "[]" and poutput = "[0, 0, 0, 0]" and n = "9" and pre = "[[10, 20]]" and b =
        "[30, 40]" and rest = "[]" and ?o1.0 = "2" and ?p1.0 = "[9, 23, 0, 0]" and ?c1.0 = "?c1"]
  from A
      [THEN conjunct2, THEN conjunct2, THEN conjunct2, THEN conjunct2, THEN conjunct2,
       THEN conjunct2, THEN conjunct2, THEN conjunct2, THEN conjunct2, THEN conjunct1] ecb region
  have at: "update_at toy_faulty [10, 20, 30, 40] 0 4 [0, 0, 0, 0] 0 ?s
              = (thrown_or (- 0x6100) ''update'' 0, take 0 [0, 0, 0, 0] @ [9, 23, 0, 0],
                 ?s\<lparr>ctx := ?c1\<rparr>)"
    by simp
  from A
      [THEN conjunct2, THEN conjunct2, THEN conjunct2, THEN conjunct2, THEN conjunct2,
       THEN conjunct2, THEN conjunct2, THEN conjunct2, THEN conjunct2, THEN conjunct2,
       THEN conjunct2, THEN conjunct2, THEN conjunct2, THEN conjunct2, THEN conjunct2,
       THEN conjunct2] pos lens pre fails neg st
  have mid: "update_chunked toy_faulty (concat ([[10, 20]] @ [30, 40] # [])) [0, 0, 0, 0] 9 ?s
               = (Returns (- 0x6100, 9, [9, 23, 0, 0]), ?s\<lparr>ctx := ?c1\<rparr>)"
    by blast
  from A
      [THEN conjunct2, THEN conjunct2, THEN conjunct2, THEN conjunct2, THEN conjunct2,
       THEN conjunct2, THEN conjunct2, THEN conjunct2, THEN conjunct2, THEN conjunct2,
       THEN conjunct2, THEN conjunct2, THEN conjunct1] ecb
  have ne: "update_noexcept toy_faulty [10, 20, 30, 40] [0, 0, 0, 0] 9 ?s
              = update_chunked toy_faulty [10, 20, 30, 40] [0, 0, 0, 0] 9 ?s"
    by blast
  have fin: "cipher_finish toy (ctx ?t) = Called (- 0x6280) (ctx ?t) [] (Some 0)"
    by (simp add: update_def impl_defs toy_defs)
  have st1: "store_at [7, 7] 1 [] = Some [7, 7 :: byte]"
    and st0: "store_at [0, 0] 0 [] = Some [0, 0 :: byte]"
    by (simp_all add: store_at_def)
  note B = failed_operation_output
      [where M = "toy" and ctype = "0" and pad = "pad_none" and iv = "[]" and key = "[]" and input =
        "[]" and out = "[]" and cip = "?t" and r = "- 0x6280" and c' = "ctx ?t" and w = "[]" and
        ol = "Some 0" and tag_written = "[]" and p = "[0, 0]" and tag' = "[]" and ad = "[]" and
        tag = "[]" and s = "?t" and k = "0" and s' = "?t" and bm = "bm_cbc" and len = "0" and
        in_index = "0" and count = "0" and out_index = "1" and obuf = "[7, 7]" and region = "[]"
        and obuf' = "[7, 7]" and poutput = "[0, 0]" and n = "7" and pre = "[]" and b = "[]" and
        rest = "[]" and ?o1.0 = "0" and ?p1.0 = "[]" and ?c1.0 = "ctx (?t)"]
  from B
      [THEN conjunct2, THEN conjunct2, THEN conjunct2, THEN conjunct2, THEN conjunct2,
       THEN conjunct2, THEN conjunct2, THEN conjunct2, THEN conjunct2, THEN conjunct2,
       THEN conjunct2, THEN conjunct1] fin st1
  have fat: "finish_at toy [7, 7] 1 ?t
               = (thrown_or (- 0x6280) ''mbedtls_cipher_finish'' (stored (Some 0) 0), [7, 7],
                  ?t\<lparr>ctx := ctx ?t\<rparr>)"
    by simp
  from B
      [THEN conjunct2, THEN conjunct2, THEN conjunct2, THEN conjunct2, THEN conjunct2,
       THEN conjunct2, THEN conjunct2, THEN conjunct2, THEN conjunct2, THEN conjunct2,
       THEN conjunct2, THEN conjunct2, THEN conjunct2, THEN conjunct2, THEN conjunct1] fin st0
  have fne: "finish_noexcept toy [0, 0] 7 ?t
               = (Returns (- 0x6280, stored (Some 0) 7, [0, 0]), ?t\<lparr>ctx := ctx ?t\<rparr>)"
    by blast
  have eng: "crypt_engine_new toy 0 pad_none [] [1, 2] encrypt_mode [10, 20, 30, 40]
               = Returns toy_engine"
    by (simp add: toy_engine_def crypt_engine_new_def cipher_block_mode_def
          cipher_block_size_def impl_defs toy_defs)
  have enc: "encrypt toy 0 pad_none [] [1, 2] [10, 20, 30, 40] = Returns [9, 23, 29, 43]"
    by (simp add: encrypt_def run_def crypt_engine_new_def cipher_block_mode_def
          cipher_block_size_def compute_def output_size_def compute_loop.simps crypt_call_def
          impl_defs toy_defs)
  note C = failed_operation_output
      [where M = "toy" and ctype = "0" and pad = "pad_none" and iv = "[]" and key = "[1, 2]" and
        input = "[10, 20, 30, 40]" and out = "[9, 23, 29, 43]" and cip = "?t" and r = "0" and c'
        = "ctx (?t)" and w = "[]" and ol = "None" and tag_written = "[]" and p = "[]" and tag' =
        "[]" and ad = "[]" and tag = "[]" and s = "?t" and k = "0" and s' = "?t" and bm =
        "bm_ctr" and len = "0" and in_index = "0" and count = "0" and out_index = "0" and obuf =
        "[]" and region = "[]" and obuf' = "[]" and poutput = "[]" and n = "0" and pre = "[]"
        and b = "[]" and rest = "[]" and ?o1.0 = "0" and ?p1.0 = "[]" and ?c1.0 = "ctx (?t)"]
  from C
      [THEN conjunct1] enc eng
  have codes: "crypt_codes toy (iv_data (e_cim toy_engine)) (engine_blocks toy_engine)
                 (ctx (e_cim toy_engine)) = replicate (length (engine_blocks toy_engine)) 0"
    by auto
  from at mid ne first fat fne enc codes show ?thesis
    by (simp add: thrown_or_def)
qed

text \<open>
  The claim as written fails for the overloads that write into the caller's memory:
  after a failure on the second block, the first block's output is in the caller's
  buffer, for the raw-pointer overload and for the one that throws.
\<close>

theorem update_partial_output_counterexample:
  "fst (update_noexcept toy_faulty [10, 20, 30, 40] [0, 0, 0, 0] 9
          (toy_cipher toy_faulty 0 encrypt_mode)) = Returns (- 0x6100, 9, [9, 23, 0, 0]) \<and>
   fst (update_at toy_faulty [10, 20, 30, 40] 0 4 [0, 0, 0, 0] 0
          (toy_cipher toy_faulty 0 encrypt_mode)) = Throws (exception (- 0x6100) ''update'') \<and>
   fst (snd (update_at toy_faulty [10, 20, 30, 40] 0 4 [0, 0, 0, 0] 0
          (toy_cipher toy_faulty 0 encrypt_mode))) = [9, 23, 0, 0]"
  by (simp add: update_noexcept_def update_at_def update_chunked_def update_chunked_loop.simps
        toy_faulty_def impl_defs toy_defs)

end
